theory Spec2Isabelle
  imports Complex_Main
begin

section \<open>Floating-point values\<close>

text \<open>
  The tensors of \<^verbatim>\<open>sfp/model.py\<close> hold 64-bit floats. A float is modelled as a real
  number or one of the three special values of IEEE 754. Rounding, overflow, underflow and
  the sign of zero are not modelled: a finite value is an exact real, and a zero divisor
  behaves as \<^verbatim>\<open>+0.0\<close> (the only zero divisors of the code are norms and squares).
  The results below that hold for all inputs therefore equate what the code computes
  with a formula written in these same operations, step by step, and use no identity of
  the real numbers that the floats lack; the evaluations at given inputs are at values
  where the floats are exact (zeros, ones, NaN) or are examples of the loops.
\<close>

datatype fl = Fin real | PInf | NInf | NaN

fun isnan :: "fl \<Rightarrow> bool" where
  "isnan NaN = True"
| "isnan _ = False"

fun isinf :: "fl \<Rightarrow> bool" where
  "isinf PInf = True"
| "isinf NInf = True"
| "isinf _ = False"



fun fneg :: "fl \<Rightarrow> fl" where
  "fneg (Fin x) = Fin (- x)"
| "fneg PInf = NInf"
| "fneg NInf = PInf"
| "fneg NaN = NaN"

fun fadd :: "fl \<Rightarrow> fl \<Rightarrow> fl" where
  "fadd (Fin x) (Fin y) = Fin (x + y)"
| "fadd NaN _ = NaN"
| "fadd _ NaN = NaN"
| "fadd PInf NInf = NaN"
| "fadd NInf PInf = NaN"
| "fadd PInf _ = PInf"
| "fadd _ PInf = PInf"
| "fadd NInf _ = NInf"
| "fadd _ NInf = NInf"

definition fsub :: "fl \<Rightarrow> fl \<Rightarrow> fl" where
  "fsub a b = fadd a (fneg b)"

text \<open>An infinity of the given sign (\<open>True\<close> is positive).\<close>

definition signed_inf :: "bool \<Rightarrow> fl" where
  "signed_inf pos = (if pos then PInf else NInf)"

fun fmul :: "fl \<Rightarrow> fl \<Rightarrow> fl" where
  "fmul (Fin x) (Fin y) = Fin (x * y)"
| "fmul NaN _ = NaN"
| "fmul _ NaN = NaN"
| "fmul (Fin x) PInf = (if x = 0 then NaN else signed_inf (0 < x))"
| "fmul (Fin x) NInf = (if x = 0 then NaN else signed_inf (x < 0))"
| "fmul PInf (Fin y) = (if y = 0 then NaN else signed_inf (0 < y))"
| "fmul NInf (Fin y) = (if y = 0 then NaN else signed_inf (y < 0))"
| "fmul PInf PInf = PInf"
| "fmul PInf NInf = NInf"
| "fmul NInf PInf = NInf"
| "fmul NInf NInf = PInf"

fun fdiv :: "fl \<Rightarrow> fl \<Rightarrow> fl" where
  "fdiv (Fin x) (Fin y) =
     (if y = 0 then (if x = 0 then NaN else signed_inf (0 < x)) else Fin (x / y))"
| "fdiv NaN _ = NaN"
| "fdiv _ NaN = NaN"
| "fdiv (Fin x) PInf = Fin 0"
| "fdiv (Fin x) NInf = Fin 0"
| "fdiv PInf (Fin y) = signed_inf (0 \<le> y)"
| "fdiv NInf (Fin y) = signed_inf (y < 0)"
| "fdiv PInf PInf = NaN"
| "fdiv PInf NInf = NaN"
| "fdiv NInf PInf = NaN"
| "fdiv NInf NInf = NaN"

fun fsqrt :: "fl \<Rightarrow> fl" where
  "fsqrt (Fin x) = (if x < 0 then NaN else Fin (sqrt x))"
| "fsqrt PInf = PInf"
| "fsqrt NInf = NaN"
| "fsqrt NaN = NaN"

fun fabs :: "fl \<Rightarrow> fl" where
  "fabs (Fin x) = Fin \<bar>x\<bar>"
| "fabs PInf = PInf"
| "fabs NInf = PInf"
| "fabs NaN = NaN"

fun fcos :: "fl \<Rightarrow> fl" where
  "fcos (Fin x) = Fin (cos x)"
| "fcos _ = NaN"

fun flog2 :: "fl \<Rightarrow> fl" where
  "flog2 (Fin x) = (if x < 0 then NaN else if x = 0 then NInf else Fin (log 2 x))"
| "flog2 PInf = PInf"
| "flog2 NInf = NaN"
| "flog2 NaN = NaN"

fun fexp :: "fl \<Rightarrow> fl" where
  "fexp (Fin x) = Fin (exp x)"
| "fexp PInf = PInf"
| "fexp NInf = Fin 0"
| "fexp NaN = NaN"

text \<open>The comparisons of Python floats: every comparison with NaN is false but \<^verbatim>\<open>!=\<close>.\<close>

fun flt :: "fl \<Rightarrow> fl \<Rightarrow> bool" where
  "flt (Fin x) (Fin y) = (x < y)"
| "flt NaN _ = False"
| "flt _ NaN = False"
| "flt _ NInf = False"
| "flt PInf _ = False"
| "flt NInf _ = True"
| "flt _ PInf = True"

fun feq :: "fl \<Rightarrow> fl \<Rightarrow> bool" where
  "feq (Fin x) (Fin y) = (x = y)"
| "feq PInf PInf = True"
| "feq NInf NInf = True"
| "feq _ _ = False"

definition fne :: "fl \<Rightarrow> fl \<Rightarrow> bool" where
  "fne a b = (\<not> feq a b)"

definition fle :: "fl \<Rightarrow> fl \<Rightarrow> bool" where
  "fle a b = (flt a b \<or> feq a b)"

text \<open>\<^verbatim>\<open>torch.clamp(x, min=c)\<close> on one element; a NaN stays a NaN.\<close>

definition fclamp_min :: "fl \<Rightarrow> fl \<Rightarrow> fl" where
  "fclamp_min c x = (if isnan x then NaN else if flt x c then c else x)"

primrec fsum :: "fl list \<Rightarrow> fl" where
  "fsum [] = Fin 0"
| "fsum (x # xs) = fadd x (fsum xs)"

text \<open>The mean of a sequence of floats (\<^verbatim>\<open>np.mean\<close>, \<^verbatim>\<open>Tensor.mean\<close>): NaN when empty.\<close>

definition fmean :: "fl list \<Rightarrow> fl" where
  "fmean xs = fdiv (fsum xs) (Fin (real (length xs)))"

text \<open>The Euclidean norm of a vector (\<^verbatim>\<open>Tensor.norm(2)\<close>).\<close>

definition vnorm :: "fl list \<Rightarrow> fl" where
  "vnorm xs = fsqrt (fsum (map (\<lambda>x. fmul x x) xs))"

section \<open>Tensors\<close>

text \<open>
  The tensors the model, the loss and the training loops handle have at most two
  dimensions: a scalar, a vector (one voxel, one value per stimulus class) or a matrix
  (a batch: one row per voxel). The rows of a matrix have one length.
\<close>

datatype tensor = T0 fl | T1 "fl list" | T2 "fl list list"

text \<open>
  The exceptions: one constructor for each \<^verbatim>\<open>raise Exception(...)\<close> of the module, with
  the value its message is formatted with, and the errors of Python and torch themselves.
\<close>

datatype error =
    OnlyTwoNonSingletons            \<comment> \<open>"Only two of these variables can be non-singletons!"\<close>
  | UnknownOrientationType string   \<comment> \<open>"Don't know how to handle orientation_type ...!"\<close>
  | UnknownEccentricityType string  \<comment> \<open>"Don't know how to handle eccentricity_type ...!"\<close>
  | DataframeEmpty                  \<comment> \<open>"Dataframe is empty!"\<close>
  | ShapeError       \<comment> \<open>torch's RuntimeError: sizes that do not broadcast or concatenate\<close>
  | AssertionError
  | AttributeError   \<comment> \<open>a method called on \<^verbatim>\<open>None\<close>\<close>
  | NameError        \<comment> \<open>a local variable read before it is bound\<close>

definition bindE :: "error + 'a \<Rightarrow> ('a \<Rightarrow> error + 'b) \<Rightarrow> error + 'b" where
  "bindE r f = (case r of Inl e \<Rightarrow> Inl e | Inr v \<Rightarrow> f v)"

fun ndimension :: "tensor \<Rightarrow> nat" where
  "ndimension (T0 _) = 0"
| "ndimension (T1 _) = 1"
| "ndimension (T2 _) = 2"

text \<open>The shape; a matrix without rows has no row to read a width from and gets width 0.\<close>

fun shape :: "tensor \<Rightarrow> nat list" where
  "shape (T0 _) = []"
| "shape (T1 xs) = [length xs]"
| "shape (T2 xss) = [length xss, (case xss of [] \<Rightarrow> 0 | r # _ \<Rightarrow> length r)]"

fun tmap :: "(fl \<Rightarrow> fl) \<Rightarrow> tensor \<Rightarrow> tensor" where
  "tmap f (T0 x) = T0 (f x)"
| "tmap f (T1 xs) = T1 (map f xs)"
| "tmap f (T2 xss) = T2 (map (map f) xss)"

text \<open>
  Broadcasting of two vectors: equal lengths combine elementwise, a vector of length one
  is repeated, anything else is torch's size-mismatch error (\<open>None\<close> here).
\<close>

definition bvec :: "(fl \<Rightarrow> fl \<Rightarrow> fl) \<Rightarrow> fl list \<Rightarrow> fl list \<Rightarrow> fl list option" where
  "bvec f xs ys =
     (if length xs = length ys then Some (map2 f xs ys)
      else if length xs = 1 then Some (map (f (hd xs)) ys)
      else if length ys = 1 then Some (map (\<lambda>x. f x (hd ys)) xs)
      else None)"

text \<open>All results, or \<open>None\<close> when one of them is \<open>None\<close>.\<close>

primrec collect :: "'a option list \<Rightarrow> 'a list option" where
  "collect [] = Some []"
| "collect (x # xs) =
     (case x of None \<Rightarrow> None
      | Some v \<Rightarrow> (case collect xs of None \<Rightarrow> None | Some vs \<Rightarrow> Some (v # vs)))"

definition bmat :: "(fl \<Rightarrow> fl \<Rightarrow> fl) \<Rightarrow> fl list list \<Rightarrow> fl list list \<Rightarrow> fl list list option" where
  "bmat f xss yss =
     (if length xss = length yss then collect (map2 (bvec f) xss yss)
      else if length xss = 1 then collect (map (bvec f (hd xss)) yss)
      else if length yss = 1 then collect (map (\<lambda>xs. bvec f xs (hd yss)) xss)
      else None)"

definition of_option :: "'a option \<Rightarrow> ('a \<Rightarrow> tensor) \<Rightarrow> error + tensor" where
  "of_option r c = (case r of None \<Rightarrow> Inl ShapeError | Some v \<Rightarrow> Inr (c v))"

text \<open>An elementwise binary operation of torch, with broadcasting.\<close>

fun tbin :: "(fl \<Rightarrow> fl \<Rightarrow> fl) \<Rightarrow> tensor \<Rightarrow> tensor \<Rightarrow> error + tensor" where
  "tbin f (T0 x) (T0 y) = Inr (T0 (f x y))"
| "tbin f (T0 x) (T1 ys) = Inr (T1 (map (f x) ys))"
| "tbin f (T0 x) (T2 yss) = Inr (T2 (map (map (f x)) yss))"
| "tbin f (T1 xs) (T0 y) = Inr (T1 (map (\<lambda>x. f x y) xs))"
| "tbin f (T2 xss) (T0 y) = Inr (T2 (map (map (\<lambda>x. f x y)) xss))"
| "tbin f (T1 xs) (T1 ys) = of_option (bvec f xs ys) T1"
| "tbin f (T1 xs) (T2 yss) = of_option (bmat f [xs] yss) T2"
| "tbin f (T2 xss) (T1 ys) = of_option (bmat f xss [ys]) T2"
| "tbin f (T2 xss) (T2 yss) = of_option (bmat f xss yss) T2"

text \<open>
  The reductions of the loss, along the last dimension and keeping it
  (\<^verbatim>\<open>norm(2, -1, True)\<close>, \<^verbatim>\<open>mean(-1, True)\<close>), and over all elements (\<^verbatim>\<open>mean()\<close>).
\<close>

fun tnorm :: "tensor \<Rightarrow> tensor" where
  "tnorm (T0 x) = T0 (vnorm [x])"
| "tnorm (T1 xs) = T1 [vnorm xs]"
| "tnorm (T2 xss) = T2 (map (\<lambda>r. [vnorm r]) xss)"

fun tmean_last :: "tensor \<Rightarrow> tensor" where
  "tmean_last (T0 x) = T0 (fmean [x])"
| "tmean_last (T1 xs) = T1 [fmean xs]"
| "tmean_last (T2 xss) = T2 (map (\<lambda>r. [fmean r]) xss)"

fun elements :: "tensor \<Rightarrow> fl list" where
  "elements (T0 x) = [x]"
| "elements (T1 xs) = xs"
| "elements (T2 xss) = concat xss"

definition tmean_all :: "tensor \<Rightarrow> fl" where
  "tmean_all t = fmean (elements t)"

text \<open>\<^verbatim>\<open>v in t\<close>: some element compares equal to \<open>v\<close>.\<close>

definition tcontains :: "fl \<Rightarrow> tensor \<Rightarrow> bool" where
  "tcontains v t = list_ex (feq v) (elements t)"

text \<open>\<^verbatim>\<open>torch.cat([x, y])\<close> (along the first dimension) and \<^verbatim>\<open>torch.cat([x, y], 1)\<close>.\<close>

fun tcat0 :: "tensor \<Rightarrow> tensor \<Rightarrow> error + tensor" where
  "tcat0 (T1 xs) (T1 ys) = Inr (T1 (xs @ ys))"
| "tcat0 (T2 xss) (T2 yss) =
     (if xss = [] \<or> yss = [] \<or> length (hd xss) = length (hd yss) then Inr (T2 (xss @ yss))
      else Inl ShapeError)"
| "tcat0 _ _ = Inl ShapeError"

fun tcat1 :: "tensor \<Rightarrow> tensor \<Rightarrow> error + tensor" where
  "tcat1 (T2 xss) (T2 yss) =
     (if length xss = length yss then Inr (T2 (map2 (@) xss yss)) else Inl ShapeError)"
| "tcat1 _ _ = Inl ShapeError"

section \<open>The tuning model: \<^verbatim>\<open>LogGaussianDonut\<close>\<close>

text \<open>
  \<^verbatim>\<open>_check_and_reshape_tensors(x, y)\<close>: two vectors of different shapes become the two
  matrices of their outer combination: \<^verbatim>\<open>x.repeat(len(y), 1)\<close> has one copy of \<open>x\<close> per
  element of \<open>y\<close>, and \<^verbatim>\<open>y.repeat(x.shape[1], 1).transpose(0, 1)\<close> has in row \<open>i\<close> the
  element \<open>i\<close> of \<open>y\<close>, once per element of \<open>x\<close>.
\<close>

fun check_and_reshape_tensors :: "tensor \<Rightarrow> tensor \<Rightarrow> tensor \<times> tensor" where
  "check_and_reshape_tensors (T1 xs) (T1 ys) =
     (if length xs \<noteq> length ys
      then (T2 (replicate (length ys) xs), T2 (map (replicate (length xs)) ys))
      else (T1 xs, T1 ys))"
| "check_and_reshape_tensors x y = (x, y)"

text \<open>A \<^verbatim>\<open>torch.nn.Parameter\<close> holding one number.\<close>

record param =
  data :: fl
  requires_grad :: bool

definition cast_as_param :: "fl \<Rightarrow> bool \<Rightarrow> param" where
  "cast_as_param x rg = \<lparr>data = x, requires_grad = rg\<rparr>"

record donut =
  orientation_type :: string
  eccentricity_type :: string
  vary_amplitude :: bool
  model_type :: string
  sigma :: param
  abs_amplitude_cardinals :: param
  abs_amplitude_obliques :: param
  rel_amplitude_cardinals :: param
  rel_amplitude_obliques :: param
  abs_mode_cardinals :: param
  abs_mode_obliques :: param
  rel_mode_cardinals :: param
  rel_mode_obliques :: param
  sf_ecc_slope :: param
  sf_ecc_intercept :: param

text \<open>
  The constructor builds the names of its keyword arguments from their parts
  (\<^verbatim>\<open>'%s_%s_%s' % (ori, param, angle)\<close> and \<^verbatim>\<open>'sf_ecc_%s' % var\<close>); a name is modelled by
  its parts.
\<close>

datatype ori = Abs | Rel
datatype par = Mode | Amplitude
datatype ang = Cardinals | Obliques
datatype ecc_var = Slope | Intercept
datatype key = Ori ori par ang | SfEcc ecc_var

datatype warning =
    AbsoluteMustBeZero string   \<comment> \<open>"When orientation_type is ..., all absolute variables must be 0"\<close>
  | RelativeMustBeZero string   \<comment> \<open>"When orientation_type is ..., all relative variables must be 0"\<close>
  | AmplitudeMustBeZero         \<comment> \<open>"When vary_amplitude is False, all amplitude variables must be 0"\<close>
  | InterceptMustBeZero         \<comment> \<open>"When eccentricity_type is scaling, sf_ecc_intercept must be 0!"\<close>
  | SlopeMustBeZero             \<comment> \<open>"When eccentricity_type is constant, sf_ecc_slope must be 0!"\<close>

text \<open>
  The state of the constructor: the dictionaries \<^verbatim>\<open>kwargs\<close> (the value of each
  argument) and \<^verbatim>\<open>train_kwargs\<close> (whether it is fitted), and the warnings issued so far.
\<close>

type_synonym init_state = "(key \<Rightarrow> fl) \<times> (key \<Rightarrow> bool) \<times> warning list"

text \<open>
  The body of each correcting loop, for the argument \<open>k\<close>:
  \<^verbatim>\<open>if kwargs[k] != 0: warnings.warn(w); kwargs[k] = 0\<close>, then \<^verbatim>\<open>train_kwargs[k] = False\<close>.
\<close>

definition disable :: "warning \<Rightarrow> key \<Rightarrow> init_state \<Rightarrow> init_state" where
  "disable w k st =
     (case st of (kwargs, train_kwargs, ws) \<Rightarrow>
        if fne (kwargs k) (Fin 0)
        then (kwargs(k := Fin 0), train_kwargs(k := False), ws @ [w])
        else (kwargs, train_kwargs(k := False), ws))"

text \<open>
  \<^verbatim>\<open>LogGaussianDonut.__init__\<close>. \<open>args\<close> gives the initial value of each of the ten
  arguments built by name; the first two loops of the constructor copy them into
  \<^verbatim>\<open>kwargs\<close> and set \<^verbatim>\<open>train_kwargs\<close> to \<^verbatim>\<open>True\<close> for each. The result is the model and the
  warnings issued, in order.
\<close>

definition init :: "string \<Rightarrow> string \<Rightarrow> bool \<Rightarrow> fl \<Rightarrow> (key \<Rightarrow> fl) \<Rightarrow> error + (donut \<times> warning list)" where
  "init ot et va sigma0 args =
     (let st0 = (args, (\<lambda>k. True), []);
          st1 = (if ot \<in> set [''relative'', ''iso'']
                 then fold (\<lambda>(p, a). disable (AbsoluteMustBeZero ot) (Ori Abs p a))
                        (List.product [Mode, Amplitude] [Cardinals, Obliques]) st0
                 else st0);
          st2 = (if ot \<in> set [''absolute'', ''iso'']
                 then fold (\<lambda>(p, a). disable (RelativeMustBeZero ot) (Ori Rel p a))
                        (List.product [Mode, Amplitude] [Cardinals, Obliques]) st1
                 else st1)
      in if ot \<notin> set [''relative'', ''absolute'', ''iso'', ''full'']
         then Inl (UnknownOrientationType ot)
         else
           let st3 = (if \<not> va
                      then fold (\<lambda>(or, a). disable AmplitudeMustBeZero (Ori or Amplitude a))
                             (List.product [Abs, Rel] [Cardinals, Obliques]) st2
                      else st2);
               amp_vary_label = (if \<not> va then ''constant'' else ''vary'');
               st4 = (if et = ''scaling'' then Inr (disable InterceptMustBeZero (SfEcc Intercept) st3)
                      else if et = ''constant'' then Inr (disable SlopeMustBeZero (SfEcc Slope) st3)
                      else if et \<noteq> ''full'' then Inl (UnknownEccentricityType et)
                      else Inr st3)
           in bindE st4 (\<lambda>(kwargs, train_kwargs, ws).
                Inr (\<lparr>orientation_type = ot,
                      eccentricity_type = et,
                      vary_amplitude = va,
                      model_type = et @ ''_donut_'' @ ot @ ''_amps-'' @ amp_vary_label,
                      sigma = cast_as_param sigma0 True,
                      abs_amplitude_cardinals =
                        cast_as_param (kwargs (Ori Abs Amplitude Cardinals))
                          (train_kwargs (Ori Abs Amplitude Cardinals)),
                      abs_amplitude_obliques =
                        cast_as_param (kwargs (Ori Abs Amplitude Obliques))
                          (train_kwargs (Ori Abs Amplitude Obliques)),
                      rel_amplitude_cardinals =
                        cast_as_param (kwargs (Ori Rel Amplitude Cardinals))
                          (train_kwargs (Ori Rel Amplitude Cardinals)),
                      rel_amplitude_obliques =
                        cast_as_param (kwargs (Ori Rel Amplitude Obliques))
                          (train_kwargs (Ori Rel Amplitude Obliques)),
                      abs_mode_cardinals =
                        cast_as_param (kwargs (Ori Abs Mode Cardinals))
                          (train_kwargs (Ori Abs Mode Cardinals)),
                      abs_mode_obliques =
                        cast_as_param (kwargs (Ori Abs Mode Obliques))
                          (train_kwargs (Ori Abs Mode Obliques)),
                      rel_mode_cardinals =
                        cast_as_param (kwargs (Ori Rel Mode Cardinals))
                          (train_kwargs (Ori Rel Mode Cardinals)),
                      rel_mode_obliques =
                        cast_as_param (kwargs (Ori Rel Mode Obliques))
                          (train_kwargs (Ori Rel Mode Obliques)),
                      sf_ecc_slope =
                        cast_as_param (kwargs (SfEcc Slope)) (train_kwargs (SfEcc Slope)),
                      sf_ecc_intercept =
                        cast_as_param (kwargs (SfEcc Intercept)) (train_kwargs (SfEcc Intercept))\<rparr>,
                     ws)))"

text \<open>The parameter of a model that was built from the argument of the given name.\<close>

fun stored :: "donut \<Rightarrow> key \<Rightarrow> param" where
  "stored d (Ori Abs Amplitude Cardinals) = abs_amplitude_cardinals d"
| "stored d (Ori Abs Amplitude Obliques) = abs_amplitude_obliques d"
| "stored d (Ori Rel Amplitude Cardinals) = rel_amplitude_cardinals d"
| "stored d (Ori Rel Amplitude Obliques) = rel_amplitude_obliques d"
| "stored d (Ori Abs Mode Cardinals) = abs_mode_cardinals d"
| "stored d (Ori Abs Mode Obliques) = abs_mode_obliques d"
| "stored d (Ori Rel Mode Cardinals) = rel_mode_cardinals d"
| "stored d (Ori Rel Mode Obliques) = rel_mode_obliques d"
| "stored d (SfEcc Slope) = sf_ecc_slope d"
| "stored d (SfEcc Intercept) = sf_ecc_intercept d"

text \<open>
  The sum both \<^verbatim>\<open>preferred_period\<close> and \<^verbatim>\<open>max_amplitude\<close> compute, for their four
  coefficients: \<^verbatim>\<open>1 + ac*cos(2*sf_angle) + ao*cos(4*sf_angle) + rc*cos(2*rel_sf_angle) +
  ro*cos(4*rel_sf_angle)\<close>, added from the left.
\<close>

definition cos_term :: "fl \<Rightarrow> real \<Rightarrow> tensor \<Rightarrow> tensor" where
  "cos_term c k t = tmap (\<lambda>x. fmul c (fcos (fmul (Fin k) x))) t"

definition orientation_sum :: "fl \<Rightarrow> fl \<Rightarrow> fl \<Rightarrow> fl \<Rightarrow> tensor \<Rightarrow> tensor \<Rightarrow> error + tensor" where
  "orientation_sum ac ao rc ro sf_angle rel_sf_angle =
     bindE (tbin fadd (tmap (fadd (Fin 1)) (cos_term ac 2 sf_angle)) (cos_term ao 4 sf_angle))
       (\<lambda>s2. bindE (tbin fadd s2 (cos_term rc 2 rel_sf_angle))
          (\<lambda>s3. tbin fadd s3 (cos_term ro 4 rel_sf_angle)))"

definition preferred_period :: "donut \<Rightarrow> tensor \<Rightarrow> tensor \<Rightarrow> tensor \<Rightarrow> error + tensor" where
  "preferred_period self sf_angle vox_ecc vox_angle =
     bindE
       (if ndimension sf_angle = 1 \<and> ndimension vox_ecc = 1 \<and> ndimension vox_angle = 1
        then (if shape sf_angle \<noteq> shape vox_ecc \<and> shape vox_ecc \<noteq> shape vox_angle
              then Inl OnlyTwoNonSingletons
              else Inr (sf_angle, vox_ecc, vox_angle))
        else (case check_and_reshape_tensors sf_angle vox_ecc of (sf_angle1, vox_ecc1) \<Rightarrow>
              case check_and_reshape_tensors vox_ecc1 vox_angle of (vox_ecc2, vox_angle1) \<Rightarrow>
              case check_and_reshape_tensors sf_angle1 vox_angle1 of (sf_angle2, vox_angle2) \<Rightarrow>
                Inr (sf_angle2, vox_ecc2, vox_angle2)))
       (\<lambda>(sf_angle, vox_ecc, vox_angle).
          bindE (tbin fsub sf_angle vox_angle)
            (\<lambda>rel_sf_angle.
               let eccentricity_effect =
                     tmap (\<lambda>x. fadd (fmul (data (sf_ecc_slope self)) x) (data (sf_ecc_intercept self)))
                       vox_ecc
               in bindE (orientation_sum (data (abs_mode_cardinals self)) (data (abs_mode_obliques self))
                           (data (rel_mode_cardinals self)) (data (rel_mode_obliques self))
                           sf_angle rel_sf_angle)
                    (\<lambda>orientation_effect.
                       bindE (tbin fmul eccentricity_effect orientation_effect)
                         (\<lambda>t. Inr (tmap (fclamp_min (Fin (1 / 10 ^ 6))) t)))))"

definition max_amplitude :: "donut \<Rightarrow> tensor \<Rightarrow> tensor \<Rightarrow> error + tensor" where
  "max_amplitude self sf_angle0 vox_angle0 =
     (case check_and_reshape_tensors sf_angle0 vox_angle0 of (sf_angle, vox_angle) \<Rightarrow>
        bindE (tbin fsub sf_angle vox_angle)
          (\<lambda>rel_sf_angle.
             bindE (orientation_sum (data (abs_amplitude_cardinals self))
                      (data (abs_amplitude_obliques self)) (data (rel_amplitude_cardinals self))
                      (data (rel_amplitude_obliques self)) sf_angle rel_sf_angle)
               (\<lambda>amplitude. Inr (tmap (fclamp_min (Fin (1 / 10 ^ 6))) amplitude))))"

definition evaluate :: "donut \<Rightarrow> tensor \<Rightarrow> tensor \<Rightarrow> tensor \<Rightarrow> tensor \<Rightarrow> error + tensor" where
  "evaluate self sf_mag sf_angle vox_ecc vox_angle =
     bindE (preferred_period self sf_angle vox_ecc vox_angle)
       (\<lambda>pp.
          bindE (tbin fadd (tmap flog2 sf_mag) (tmap flog2 pp))
            (\<lambda>l.
               let den = fmul (Fin 2) (fmul (data (sigma self)) (data (sigma self)));
                   pdf = tmap (\<lambda>x. fexp (fdiv (fneg (fmul x x)) den)) l
               in bindE (max_amplitude self sf_angle vox_angle)
                    (\<lambda>amplitude. tbin fmul amplitude pdf)))"

section \<open>The loss: \<^verbatim>\<open>weighted_normed_loss\<close>\<close>

text \<open>
  \<^verbatim>\<open>predictions_for_norm\<close> and \<^verbatim>\<open>target_for_norm\<close> default to \<^verbatim>\<open>None\<close>. When only
  \<^verbatim>\<open>target_for_norm\<close> is given the assertion fails; when only \<^verbatim>\<open>predictions_for_norm\<close> is
  given, \<^verbatim>\<open>target_for_norm.norm\<close> is called on \<^verbatim>\<open>None\<close>, after the predictions were
  normed. The result is the float that \<^verbatim>\<open>.item()\<close> reads from the returned tensor.
\<close>

definition weighted_normed_loss ::
  "tensor \<Rightarrow> tensor \<Rightarrow> tensor \<Rightarrow> tensor option \<Rightarrow> tensor option \<Rightarrow> error + fl" where
  "weighted_normed_loss predictions0 target precision0 predictions_for_norm0 target_for_norm0 =
     (let predictions =
            (if tcontains (Fin 0) (tnorm predictions0)
             then tmap (\<lambda>x. fmul x (Fin (10 ^ 100))) predictions0
             else predictions0)
      in bindE
           (case predictions_for_norm0 of
              None \<Rightarrow> (case target_for_norm0 of
                         None \<Rightarrow> Inr (predictions, Some target)
                       | Some _ \<Rightarrow> Inl AssertionError)
            | Some pn \<Rightarrow> Inr (pn, target_for_norm0))
           (\<lambda>(predictions_for_norm, target_for_norm).
              bindE (tbin fdiv predictions (tnorm predictions_for_norm))
                (\<lambda>normed_predictions.
                   bindE (case target_for_norm of
                            None \<Rightarrow> Inl AttributeError
                          | Some tn \<Rightarrow> tbin fdiv target (tnorm tn))
                     (\<lambda>normed_target.
                        let precision = tmean_last precision0
                        in bindE (tbin fsub normed_predictions normed_target)
                             (\<lambda>diff.
                                bindE (tbin fmul precision (tmap (\<lambda>x. fmul x x) diff))
                                  (\<lambda>squared_error. Inr (tmean_all squared_error)))))))"

section \<open>The training loops\<close>

text \<open>
  What a \<^verbatim>\<open>DataLoader\<close> yields, or \<^verbatim>\<open>get_voxel\<close> returns: the features (already split
  into the four arguments of the model, as \<^verbatim>\<open>model(*features.transpose(...))\<close> passes
  them), the target and the precision.
\<close>

type_synonym item = "(tensor \<times> tensor \<times> tensor \<times> tensor) \<times> tensor \<times> tensor"

text \<open>
  The loops are written for any model and any optimizer, as the Python is:
  \<open>fwd m\<close> is the call \<^verbatim>\<open>model(...)\<close> (for a \<^verbatim>\<open>LogGaussianDonut\<close>, \<open>evaluate\<close>), and
  \<open>step opt m objective\<close> is \<^verbatim>\<open>optimizer.zero_grad(); loss.backward(); optimizer.step()\<close>:
  the state of the optimizer and the model after one update, where \<open>objective\<close> is the loss
  as a function of the model, which is what \<^verbatim>\<open>backward\<close> differentiates. The batches of a
  \<^verbatim>\<open>DataLoader\<close> are the same in every epoch (nothing is shuffled).
\<close>

type_synonym 'm forward = "'m \<Rightarrow> tensor \<Rightarrow> tensor \<Rightarrow> tensor \<Rightarrow> tensor \<Rightarrow> error + tensor"
type_synonym ('m, 'o) optimizer = "'o \<Rightarrow> 'm \<Rightarrow> ('m \<Rightarrow> error + fl) \<Rightarrow> 'o \<times> 'm"

text \<open>The loss of one batch in \<^verbatim>\<open>train_model\<close>.\<close>

definition batch_loss :: "'m forward \<Rightarrow> item \<Rightarrow> 'm \<Rightarrow> error + fl" where
  "batch_loss fwd it m =
     (case it of ((sf_mag, sf_angle, vox_ecc, vox_angle), target, precision) \<Rightarrow>
        bindE (fwd m sf_mag sf_angle vox_ecc vox_angle)
          (\<lambda>predictions. weighted_normed_loss predictions target precision None None))"

text \<open>
  One pass of the body of a batch loop, for the loss as a function of the model: the loss
  is appended to the losses of the epoch, and the optimizer steps unless the loss is NaN
  or infinite.
\<close>

definition batch_step ::
  "('m, 'o) optimizer \<Rightarrow> ('m \<Rightarrow> error + fl) \<Rightarrow> 'm \<times> 'o \<times> fl list \<Rightarrow> error + 'm \<times> 'o \<times> fl list" where
  "batch_step step objective st =
     (case st of (m, opt, losses) \<Rightarrow>
        bindE (objective m)
          (\<lambda>loss.
             if isnan loss \<or> isinf loss then Inr (m, opt, losses @ [loss])
             else (case step opt m objective of (opt', m') \<Rightarrow> Inr (m', opt', losses @ [loss]))))"

text \<open>The batch loop of one epoch, over the objectives of its batches.\<close>

primrec run_batches ::
  "('m, 'o) optimizer \<Rightarrow> ('m \<Rightarrow> error + fl) list \<Rightarrow> 'm \<times> 'o \<times> fl list \<Rightarrow> error + 'm \<times> 'o \<times> fl list" where
  "run_batches step [] st = Inr st"
| "run_batches step (ob # obs) st = bindE (batch_step step ob st) (run_batches step obs)"

text \<open>
  The stopping rule, on the loss history (one list of batch losses per epoch, the last
  epoch last).
\<close>

definition below :: "fl \<Rightarrow> fl list \<Rightarrow> fl list \<Rightarrow> bool" where
  "below train_thresh xs ys = flt (fabs (fsub (fmean xs) (fmean ys))) train_thresh"

definition stopped_declining :: "fl \<Rightarrow> fl list list \<Rightarrow> bool" where
  "stopped_declining train_thresh loss_history =
     (let n = length loss_history
      in 3 < n \<and>
         below train_thresh (loss_history ! (n - 1)) (loss_history ! (n - 2)) \<and>
         below train_thresh (loss_history ! (n - 2)) (loss_history ! (n - 3)) \<and>
         below train_thresh (loss_history ! (n - 3)) (loss_history ! (n - 4)))"

text \<open>
  The epoch loop of \<^verbatim>\<open>train_model\<close>: \<open>n\<close> epochs are left, \<open>t\<close> is the number of the next
  one. It returns the model, the optimizer, the loss history and the number of the
  last epoch run. Saving the intermediate results every hundredth epoch writes files and
  changes nothing here.
\<close>

primrec train_loop ::
  "('m, 'o) optimizer \<Rightarrow> ('m \<Rightarrow> error + fl) list \<Rightarrow> fl \<Rightarrow> nat \<Rightarrow> nat \<Rightarrow> 'm \<times> 'o \<Rightarrow> fl list list \<Rightarrow>
   error + 'm \<times> 'o \<times> fl list list \<times> nat" where
  "train_loop step obs train_thresh 0 t st loss_history =
     (case st of (m, opt) \<Rightarrow> Inr (m, opt, loss_history, t - 1))"
| "train_loop step obs train_thresh (Suc n) t st loss_history =
     (case st of (m, opt) \<Rightarrow>
        bindE (run_batches step obs (m, opt, []))
          (\<lambda>(m', opt', losses).
             let loss_history' = loss_history @ [losses]
             in if stopped_declining train_thresh loss_history'
                then Inr (m', opt', loss_history', t)
                else train_loop step obs train_thresh n (Suc t) (m', opt') loss_history'))"

text \<open>
  \<^verbatim>\<open>train_model\<close>, for the batches \<open>batches\<close> of its \<^verbatim>\<open>DataLoader\<close>. With no epoch to run,
  \<open>t\<close> is not bound when the results are built after the loop.
\<close>

definition train_model ::
  "'m forward \<Rightarrow> ('m, 'o) optimizer \<Rightarrow> 'm \<Rightarrow> 'o \<Rightarrow> item list \<Rightarrow> nat \<Rightarrow> fl \<Rightarrow>
   error + 'm \<times> 'o \<times> fl list list \<times> nat" where
  "train_model fwd step model opt batches max_epochs train_thresh =
     (if max_epochs = 0 then Inl NameError
      else train_loop step (map (batch_loss fwd) batches) train_thresh max_epochs 0 (model, opt) [])"

section \<open>The dataset: \<^verbatim>\<open>FirstLevelDataset\<close>\<close>

text \<open>
  One row of the first-level results table, with the columns the module reads. The
  amplitude is the column \<^verbatim>\<open>amplitude_estimate\<close>, or \<^verbatim>\<open>amplitude_estimate_median\<close> where the
  table has no such column.
\<close>

record row =
  col_voxel :: int
  col_stimulus_class :: int
  col_local_sf_magnitude :: fl
  col_local_sf_xy_direction :: fl
  col_eccen :: fl
  col_angle :: fl
  col_amplitude_estimate :: fl
  col_precision :: fl

text \<open>\<^verbatim>\<open>Series.unique()\<close>: the values in the order of their first appearance.\<close>

definition unique :: "'a list \<Rightarrow> 'a list" where
  "unique xs = foldl (\<lambda>acc x. if x \<in> set acc then acc else acc @ [x]) [] xs"

definition index_of :: "'a list \<Rightarrow> 'a \<Rightarrow> nat" where
  "index_of xs x = length (takeWhile (\<lambda>y. y \<noteq> x) xs)"

text \<open>
  The dataset keeps the table, each row with its \<^verbatim>\<open>voxel_reindexed\<close>, and the stimulus
  classes of the table.
\<close>

record dataset =
  df :: "(row \<times> nat) list"
  stimulus_classes :: "int list"

text \<open>
  \<^verbatim>\<open>FirstLevelDataset.__init__\<close>, for the table read from \<^verbatim>\<open>df_path\<close>. The new index of a
  voxel is its position among the voxels of the filtered table; the restriction to the
  stimulus classes comes after it.
\<close>

definition FirstLevelDataset ::
  "row list \<Rightarrow> (row list \<Rightarrow> row list) option \<Rightarrow> int list option \<Rightarrow> error + dataset" where
  "FirstLevelDataset table df_filter stimulus_class =
     (let df1 = (case df_filter of None \<Rightarrow> table | Some f \<Rightarrow> f table);
          new_idx = index_of (unique (map col_voxel df1));
          df2 = map (\<lambda>r. (r, new_idx (col_voxel r))) df1;
          df3 = (case stimulus_class of
                   None \<Rightarrow> df2
                 | Some cs \<Rightarrow> filter (\<lambda>(r, i). col_stimulus_class r \<in> set cs) df2)
      in if df3 = [] then Inl DataframeEmpty
         else Inr \<lparr>df = df3, stimulus_classes = unique (map (\<lambda>(r, i). col_stimulus_class r) df3)\<rparr>)"

text \<open>
  \<^verbatim>\<open>get_single_item\<close>, for the selected rows: the features are returned as the four
  vectors that the callers pass to the model.
\<close>

definition get_single_item :: "(row \<times> nat) list \<Rightarrow> item" where
  "get_single_item rows =
     ((T1 (map (\<lambda>(r, i). col_local_sf_magnitude r) rows),
       T1 (map (\<lambda>(r, i). col_local_sf_xy_direction r) rows),
       T1 (map (\<lambda>(r, i). col_eccen r) rows),
       T1 (map (\<lambda>(r, i). col_angle r) rows)),
      T1 (map (\<lambda>(r, i). col_amplitude_estimate r) rows),
      T1 (map (\<lambda>(r, i). col_precision r) rows))"

definition getitem :: "dataset \<Rightarrow> nat \<Rightarrow> item" where
  "getitem self idx = get_single_item (filter (\<lambda>(r, i). i = idx) (df self))"

definition get_voxel :: "dataset \<Rightarrow> int \<Rightarrow> item" where
  "get_voxel self idx = get_single_item (filter (\<lambda>(r, i). col_voxel r = idx) (df self))"

definition len :: "dataset \<Rightarrow> nat" where
  "len self = length (unique (map (\<lambda>(r, i). col_voxel r) (df self)))"

section \<open>Cross-validation: \<^verbatim>\<open>train_model_traintest\<close> and \<^verbatim>\<open>main\<close>\<close>

text \<open>The loss of one pair of batches in \<^verbatim>\<open>train_model_traintest\<close>.\<close>

definition traintest_batch_loss :: "'m forward \<Rightarrow> item \<times> item \<Rightarrow> 'm \<Rightarrow> error + fl" where
  "traintest_batch_loss fwd stuff m =
     (case stuff of
        (((sf_mag, sf_angle, vox_ecc, vox_angle), target, prec),
         ((test_sf_mag, test_sf_angle, test_vox_ecc, test_vox_angle), test_target, _)) \<Rightarrow>
        bindE (fwd m sf_mag sf_angle vox_ecc vox_angle)
          (\<lambda>predictions.
             bindE (fwd m test_sf_mag test_sf_angle test_vox_ecc test_vox_angle)
               (\<lambda>test_predictions.
                  bindE (tcat1 test_predictions predictions)
                    (\<lambda>predictions_for_norm.
                       bindE (tcat1 test_target target)
                         (\<lambda>target_for_norm.
                            weighted_normed_loss predictions target prec
                              (Some predictions_for_norm) (Some target_for_norm))))))"

text \<open>The held-out loss of one voxel, computed after the batches of an epoch.\<close>

definition test_loss :: "'m forward \<Rightarrow> dataset \<Rightarrow> dataset \<Rightarrow> 'm \<Rightarrow> int \<Rightarrow> error + fl" where
  "test_loss fwd train_dataset test_dataset m v =
     (case (get_voxel test_dataset v, get_voxel train_dataset v) of
        (((test_sf_mag, test_sf_angle, test_vox_ecc, test_vox_angle), test_target, test_precision),
         ((sf_mag, sf_angle, vox_ecc, vox_angle), train_target, _)) \<Rightarrow>
        bindE (fwd m test_sf_mag test_sf_angle test_vox_ecc test_vox_angle)
          (\<lambda>test_predictions.
             bindE (fwd m sf_mag sf_angle vox_ecc vox_angle)
               (\<lambda>train_predictions.
                  bindE (tcat0 test_predictions train_predictions)
                    (\<lambda>predictions_for_norm.
                       bindE (tcat0 test_target train_target)
                         (\<lambda>target_for_norm.
                            weighted_normed_loss test_predictions test_target test_precision
                              (Some predictions_for_norm) (Some target_for_norm))))))"

primrec test_losses :: "(int \<Rightarrow> error + fl) \<Rightarrow> int list \<Rightarrow> error + fl list" where
  "test_losses f [] = Inr []"
| "test_losses f (v # vs) =
     bindE (f v) (\<lambda>loss. bindE (test_losses f vs) (\<lambda>losses. Inr (loss # losses)))"

primrec traintest_loop ::
  "('m, 'o) optimizer \<Rightarrow> ('m \<Rightarrow> error + fl) list \<Rightarrow> ('m \<Rightarrow> int \<Rightarrow> error + fl) \<Rightarrow> int list \<Rightarrow> fl \<Rightarrow>
   nat \<Rightarrow> nat \<Rightarrow> 'm \<times> 'o \<Rightarrow> fl list list \<Rightarrow> fl list list \<Rightarrow>
   error + 'm \<times> 'o \<times> fl list list \<times> fl list list \<times> nat" where
  "traintest_loop step obs held_out voxels train_thresh 0 t st train_loss_history test_loss_history =
     (case st of (m, opt) \<Rightarrow> Inr (m, opt, train_loss_history, test_loss_history, t - 1))"
| "traintest_loop step obs held_out voxels train_thresh (Suc n) t st train_loss_history
     test_loss_history =
     (case st of (m, opt) \<Rightarrow>
        bindE (run_batches step obs (m, opt, []))
          (\<lambda>(m', opt', losses).
             bindE (test_losses (held_out m') voxels)
               (\<lambda>held_out_losses.
                  let train_loss_history' = train_loss_history @ [losses];
                      test_loss_history' = test_loss_history @ [held_out_losses]
                  in if stopped_declining train_thresh train_loss_history'
                     then Inr (m', opt', train_loss_history', test_loss_history', t)
                     else traintest_loop step obs held_out voxels train_thresh n (Suc t) (m', opt')
                            train_loss_history' test_loss_history')))"

text \<open>
  \<^verbatim>\<open>train_model_traintest\<close>; \<open>loader\<close> gives the batches of the \<^verbatim>\<open>DataLoader\<close> of a
  dataset, and \<^verbatim>\<open>zip\<close> pairs the batches of the two datasets.
\<close>

definition train_model_traintest ::
  "'m forward \<Rightarrow> ('m, 'o) optimizer \<Rightarrow> (dataset \<Rightarrow> item list) \<Rightarrow> 'm \<Rightarrow> 'o \<Rightarrow> dataset \<Rightarrow> dataset \<Rightarrow>
   nat \<Rightarrow> fl \<Rightarrow> error + 'm \<times> 'o \<times> fl list list \<times> fl list list \<times> nat" where
  "train_model_traintest fwd step loader model opt train_dataset test_dataset max_epochs
     train_thresh =
     (if max_epochs = 0 then Inl NameError
      else traintest_loop step
             (map (traintest_batch_loss fwd) (zip (loader train_dataset) (loader test_dataset)))
             (test_loss fwd train_dataset test_dataset)
             (unique (map (\<lambda>(r, i). col_voxel r) (df test_dataset)))
             train_thresh max_epochs 0 (model, opt) [] [])"

text \<open>
  The split of \<^verbatim>\<open>main\<close> when \<^verbatim>\<open>stimulus_class\<close> is given: the training dataset, the test
  dataset and \<^verbatim>\<open>test_subset\<close>. The smaller of the given classes and the other classes is
  the test set ("we assume that test set should be smaller than train").
\<close>

definition main_datasets ::
  "row list \<Rightarrow> (row list \<Rightarrow> row list) option \<Rightarrow> int list \<Rightarrow> error + dataset \<times> dataset \<times> int list" where
  "main_datasets table df_filter stimulus_class =
     (let all_stimulus_class = unique (map col_stimulus_class table);
          other_stimulus_class = filter (\<lambda>i. i \<notin> set stimulus_class) all_stimulus_class
      in if length stimulus_class < length other_stimulus_class
         then bindE (FirstLevelDataset table df_filter (Some other_stimulus_class))
                (\<lambda>train_dataset.
                   bindE (FirstLevelDataset table df_filter (Some stimulus_class))
                     (\<lambda>test_dataset. Inr (train_dataset, test_dataset, stimulus_class)))
         else bindE (FirstLevelDataset table df_filter (Some stimulus_class))
                (\<lambda>train_dataset.
                   bindE (FirstLevelDataset table df_filter (Some other_stimulus_class))
                     (\<lambda>test_dataset. Inr (train_dataset, test_dataset, other_stimulus_class))))"

text \<open>
  \<^verbatim>\<open>main\<close>, from the construction of the full dataset to the end of training, for a
  model already built. Without \<^verbatim>\<open>stimulus_class\<close> there is no test set and no test loss.
\<close>

definition main ::
  "'m forward \<Rightarrow> ('m, 'o) optimizer \<Rightarrow> (dataset \<Rightarrow> item list) \<Rightarrow> 'm \<Rightarrow> 'o \<Rightarrow> row list \<Rightarrow>
   (row list \<Rightarrow> row list) option \<Rightarrow> int list option \<Rightarrow> nat \<Rightarrow> fl \<Rightarrow>
   error + 'm \<times> 'o \<times> fl list list \<times> fl list list option \<times> nat \<times> int list option" where
  "main fwd step loader model opt table df_filter stimulus_class max_epochs train_thresh =
     bindE (FirstLevelDataset table df_filter None)
       (\<lambda>dataset.
          case stimulus_class of
            None \<Rightarrow>
              bindE (train_model fwd step model opt (loader dataset) max_epochs train_thresh)
                (\<lambda>(m, opt', loss_history, t). Inr (m, opt', loss_history, None, t, None))
          | Some cs \<Rightarrow>
              bindE (main_datasets table df_filter cs)
                (\<lambda>(train_dataset, test_dataset, test_subset).
                   bindE (train_model_traintest fwd step loader model opt train_dataset test_dataset
                            max_epochs train_thresh)
                     (\<lambda>(m, opt', train_loss_history, test_loss_history, t).
                        Inr (m, opt', train_loss_history, Some test_loss_history, t,
                             Some test_subset))))"

section \<open>Notions of the specification\<close>

text \<open>
  A parameter is structurally disabled by the variant of the model: the absolute
  parameters when the orientation type is relative or iso, the relative ones when it is
  absolute or iso, the amplitude parameters when the amplitude does not vary, the
  intercept under scaling eccentricity and the slope under constant eccentricity.
\<close>

fun disabled :: "string \<Rightarrow> string \<Rightarrow> bool \<Rightarrow> key \<Rightarrow> bool" where
  "disabled ot et va (Ori Abs p a) = (ot \<in> set [''relative'', ''iso''] \<or> (p = Amplitude \<and> \<not> va))"
| "disabled ot et va (Ori Rel p a) = (ot \<in> set [''absolute'', ''iso''] \<or> (p = Amplitude \<and> \<not> va))"
| "disabled ot et va (SfEcc Intercept) = (et = ''scaling'')"
| "disabled ot et va (SfEcc Slope) = (et = ''constant'')"

text \<open>
  Two facts about the state of the constructor, for the argument \<open>k\<close>: it has been
  corrected (set to zero, not fitted, with a warning issued), or it will be as soon as a
  correcting loop reaches it.
\<close>

definition zeroed :: "key \<Rightarrow> init_state \<Rightarrow> bool" where
  "zeroed k st =
     (case st of (kwargs, train_kwargs, ws) \<Rightarrow> kwargs k = Fin 0 \<and> \<not> train_kwargs k \<and> ws \<noteq> [])"

definition pending :: "key \<Rightarrow> init_state \<Rightarrow> bool" where
  "pending k st =
     (zeroed k st \<or> (case st of (kwargs, train_kwargs, ws) \<Rightarrow> fne (kwargs k) (Fin 0)))"

text \<open>
  The default arguments of the constructor (\<^verbatim>\<open>sf_ecc_slope=1\<close>, the others 0, with
  \<^verbatim>\<open>sigma=.4\<close>) and the isotropic model they give.
\<close>

definition default_args :: "key \<Rightarrow> fl" where
  "default_args k = (if k = SfEcc Slope then Fin 1 else Fin 0)"

definition iso_donut :: donut where
  "iso_donut =
     \<lparr>orientation_type = ''iso'', eccentricity_type = ''full'',
      vary_amplitude = True, model_type = ''full_donut_iso_amps-vary'',
      sigma = \<lparr>data = Fin (4 / 10), requires_grad = True\<rparr>,
      abs_amplitude_cardinals = \<lparr>data = Fin 0, requires_grad = False\<rparr>,
      abs_amplitude_obliques = \<lparr>data = Fin 0, requires_grad = False\<rparr>,
      rel_amplitude_cardinals = \<lparr>data = Fin 0, requires_grad = False\<rparr>,
      rel_amplitude_obliques = \<lparr>data = Fin 0, requires_grad = False\<rparr>,
      abs_mode_cardinals = \<lparr>data = Fin 0, requires_grad = False\<rparr>,
      abs_mode_obliques = \<lparr>data = Fin 0, requires_grad = False\<rparr>,
      rel_mode_cardinals = \<lparr>data = Fin 0, requires_grad = False\<rparr>,
      rel_mode_obliques = \<lparr>data = Fin 0, requires_grad = False\<rparr>,
      sf_ecc_slope = \<lparr>data = Fin 1, requires_grad = True\<rparr>,
      sf_ecc_intercept = \<lparr>data = Fin 0, requires_grad = True\<rparr>\<rparr>"

text \<open>
  The table after the filter, and the stimulus classes of the table that are not among
  the given ones (\<^verbatim>\<open>other_stimulus_class\<close> in \<^verbatim>\<open>main\<close>). \<open>mk_row\<close> is a row of a voxel and
  a stimulus class, for examples.
\<close>

definition mk_row :: "int \<Rightarrow> int \<Rightarrow> row" where
  "mk_row v c = \<lparr>col_voxel = v, col_stimulus_class = c, col_local_sf_magnitude = Fin 1,
     col_local_sf_xy_direction = Fin 0, col_eccen = Fin 1, col_angle = Fin 0,
     col_amplitude_estimate = Fin 1, col_precision = Fin 1\<rparr>"

definition filtered :: "row list \<Rightarrow> (row list \<Rightarrow> row list) option \<Rightarrow> row list" where
  "filtered table df_filter = (case df_filter of None \<Rightarrow> table | Some f \<Rightarrow> f table)"

definition other_classes :: "row list \<Rightarrow> int list \<Rightarrow> int list" where
  "other_classes table S = filter (\<lambda>i. i \<notin> set S) (unique (map col_stimulus_class table))"

text \<open>
  The shapes of a call of \<^verbatim>\<open>evaluate\<close>. A tensor conforms to the shape \<open>s\<close> when it is a
  scalar or has the shape \<open>s\<close> (the rows of a matrix have one length); \<open>valid s i j\<close> are
  the positions of a tensor of shape \<open>s\<close> (a vector is indexed by \<open>j\<close>), \<open>elem_at t i j\<close> is
  the element of \<open>t\<close> that torch's broadcasting combines at this position, and
  \<open>tabulate s g\<close> is the tensor of shape \<open>s\<close> with the element \<open>g i j\<close> at each position.
\<close>

fun conforms :: "nat list \<Rightarrow> tensor \<Rightarrow> bool" where
  "conforms s (T0 x) = True"
| "conforms s (T1 xs) = (s = [length xs])"
| "conforms s (T2 xss) = (case s of [r, c] \<Rightarrow> length xss = r \<and> list_all (\<lambda>row. length row = c) xss | _ \<Rightarrow> False)"

fun valid :: "nat list \<Rightarrow> nat \<Rightarrow> nat \<Rightarrow> bool" where
  "valid [] i j = True"
| "valid [n] i j = (j < n)"
| "valid [r, c] i j = (i < r \<and> j < c)"
| "valid _ i j = False"

fun elem_at :: "tensor \<Rightarrow> nat \<Rightarrow> nat \<Rightarrow> fl" where
  "elem_at (T0 x) i j = x"
| "elem_at (T1 xs) i j = xs ! j"
| "elem_at (T2 xss) i j = xss ! i ! j"

fun tabulate :: "nat list \<Rightarrow> (nat \<Rightarrow> nat \<Rightarrow> fl) \<Rightarrow> tensor" where
  "tabulate [n] g = T1 (map (g 0) [0..<n])"
| "tabulate [r, c] g = T2 (map (\<lambda>i. map (g i) [0..<c]) [0..<r])"
| "tabulate s g = T0 (g 0 0)"

text \<open>
  The tensor \<open>z\<close> has \<open>k\<close> dimensions, conforms to \<open>s\<close> and holds \<open>g i j\<close> at every
  position of \<open>s\<close>.
\<close>

definition pointwise :: "nat list \<Rightarrow> nat \<Rightarrow> tensor \<Rightarrow> (nat \<Rightarrow> nat \<Rightarrow> fl) \<Rightarrow> bool" where
  "pointwise s k z g =
     (conforms s z \<and> ndimension z = k \<and> (\<forall>i j. valid s i j \<longrightarrow> elem_at z i j = g i j))"

text \<open>
  The response as the specification states it, for one spatial frequency, orientation,
  eccentricity and retinotopic angle, in the arithmetic of the floats: the orientation
  effect of step 3 (and the sum inside the amplitude of step 5) for the four weights,
  the preferred period of steps 1 to 4, the amplitude of step 5 and the response of
  step 6, each clamped from below at \<open>1e-6\<close> where the specification says so.
\<close>

definition spec_orientation :: "fl \<Rightarrow> fl \<Rightarrow> fl \<Rightarrow> fl \<Rightarrow> fl \<Rightarrow> fl \<Rightarrow> fl" where
  "spec_orientation ac ao rc ro a rel =
     fadd (fadd (fadd (fadd (Fin 1) (fmul ac (fcos (fmul (Fin 2) a))))
                      (fmul ao (fcos (fmul (Fin 4) a))))
                (fmul rc (fcos (fmul (Fin 2) rel))))
          (fmul ro (fcos (fmul (Fin 4) rel)))"

definition spec_preferred_period :: "donut \<Rightarrow> fl \<Rightarrow> fl \<Rightarrow> fl \<Rightarrow> fl" where
  "spec_preferred_period self a e r =
     fclamp_min (Fin (1 / 10 ^ 6))
       (fmul (fadd (fmul (data (sf_ecc_slope self)) e) (data (sf_ecc_intercept self)))
          (spec_orientation (data (abs_mode_cardinals self)) (data (abs_mode_obliques self))
             (data (rel_mode_cardinals self)) (data (rel_mode_obliques self)) a (fsub a r)))"

definition spec_amplitude :: "donut \<Rightarrow> fl \<Rightarrow> fl \<Rightarrow> fl" where
  "spec_amplitude self a r =
     fclamp_min (Fin (1 / 10 ^ 6))
       (spec_orientation (data (abs_amplitude_cardinals self)) (data (abs_amplitude_obliques self))
          (data (rel_amplitude_cardinals self)) (data (rel_amplitude_obliques self)) a (fsub a r))"

definition spec_response :: "donut \<Rightarrow> fl \<Rightarrow> fl \<Rightarrow> fl \<Rightarrow> fl \<Rightarrow> fl" where
  "spec_response self m a e r =
     fmul (spec_amplitude self a r)
       (fexp (fdiv (fneg (fmul (fadd (flog2 m) (flog2 (spec_preferred_period self a e r)))
                               (fadd (flog2 m) (flog2 (spec_preferred_period self a e r)))))
                   (fmul (Fin 2) (fmul (data (sigma self)) (data (sigma self))))))"

text \<open>
  The rows of a tensor (a vector is one row), their number and their length.
\<close>

fun rows :: "tensor \<Rightarrow> fl list list" where
  "rows (T0 x) = [[x]]"
| "rows (T1 xs) = [xs]"
| "rows (T2 xss) = xss"

definition height :: "tensor \<Rightarrow> nat" where
  "height t = length (rows t)"

definition width :: "tensor \<Rightarrow> nat" where
  "width t = (case rows t of [] \<Rightarrow> 0 | xs # _ \<Rightarrow> length xs)"

text \<open>
  The loss as the specification states it (section 4.3), on the rows of the tensors:
  when the norm of a row of predictions is exactly 0 all predictions are multiplied by
  \<open>1e100\<close>; each prediction is divided by the norm of its row of \<open>pnss\<close> and each target by
  the norm of its row of \<open>tnss\<close>; the squared difference is weighted by the mean precision
  of the row, and the loss is the mean over all elements of all rows. The squared
  differences are those of \<open>pss\<close> and \<open>tss\<close>: \<open>pnss\<close> and \<open>tnss\<close> enter through their
  norms.
\<close>

definition rescaled :: "fl list list \<Rightarrow> fl list list" where
  "rescaled pss =
     (if list_ex (\<lambda>ps. feq (Fin 0) (vnorm ps)) pss
      then map (map (\<lambda>p. fmul p (Fin (10 ^ 100)))) pss
      else pss)"

definition weighted_error :: "fl \<Rightarrow> fl \<Rightarrow> fl \<Rightarrow> fl \<Rightarrow> fl \<Rightarrow> fl" where
  "weighted_error w pn tn p t =
     (let d = fsub (fdiv p pn) (fdiv t tn) in fmul w (fmul d d))"

definition spec_loss ::
  "fl list list \<Rightarrow> fl list list \<Rightarrow> fl list list \<Rightarrow> fl list list \<Rightarrow> fl list list \<Rightarrow> fl" where
  "spec_loss pss tss wss pnss tnss =
     fmean (concat (map (\<lambda>i. map2 (weighted_error (fmean (wss ! i)) (vnorm (pnss ! i)) (vnorm (tnss ! i)))
                              (rescaled pss ! i) (tss ! i))
                      [0..<length pss]))"

text \<open>
  The predictions for the features of a batch: the response of the specification to the
  features at each position of the target. A batch is well formed when its features and
  its target are matrices of one shape and its precision is a matrix with as many rows;
  a batch of the training set and a batch of the test set go together when both are
  well formed and have as many rows (voxels).
\<close>

definition responses :: "donut \<Rightarrow> tensor \<times> tensor \<times> tensor \<times> tensor \<Rightarrow> tensor \<Rightarrow> fl list list" where
  "responses self features target =
     (case features of (sf_mag, sf_angle, vox_ecc, vox_angle) \<Rightarrow>
        map (\<lambda>i. map (\<lambda>j. spec_response self (elem_at sf_mag i j) (elem_at sf_angle i j)
                             (elem_at vox_ecc i j) (elem_at vox_angle i j))
                   [0..<width target])
          [0..<height target])"

definition well_formed :: "item \<Rightarrow> bool" where
  "well_formed it =
     (case it of ((sf_mag, sf_angle, vox_ecc, vox_angle), target, precision) \<Rightarrow>
        list_all (\<lambda>x. ndimension x = 2 \<and> conforms [height target, width target] x)
          [sf_mag, sf_angle, vox_ecc, vox_angle, target] \<and>
        ndimension precision = 2 \<and> height precision = height target)"

definition well_paired :: "item \<times> item \<Rightarrow> bool" where
  "well_paired stuff =
     (case stuff of ((features, target, precision), (test_features, test_target, test_precision)) \<Rightarrow>
        well_formed (features, target, precision) \<and>
        well_formed (test_features, test_target, test_precision) \<and>
        height test_target = height target)"

text \<open>
  The two losses of cross-validation (section 4.4). The loss of a gradient step has its
  squared errors over the predictions and targets of the training batch; the batch of
  the test set enters through the norms, which are those of each row of test
  predictions joined with the row of training predictions, and likewise for the
  targets. The held-out loss of a voxel has its squared errors over the rows of the
  voxel in the test set, with the same joined norms.
\<close>

definition cv_loss :: "donut \<Rightarrow> item \<times> item \<Rightarrow> fl" where
  "cv_loss self stuff =
     (case stuff of ((features, target, precision), (test_features, test_target, _)) \<Rightarrow>
        let predictions = responses self features target;
            test_predictions = responses self test_features test_target
        in spec_loss predictions (rows target) (rows precision)
             (map2 (@) test_predictions predictions) (map2 (@) (rows test_target) (rows target)))"

definition held_out_loss :: "donut \<Rightarrow> dataset \<Rightarrow> dataset \<Rightarrow> int \<Rightarrow> fl" where
  "held_out_loss self train_dataset test_dataset v =
     (case (get_voxel test_dataset v, get_voxel train_dataset v) of
        ((test_features, test_target, test_precision), (features, target, _)) \<Rightarrow>
        let test_predictions = responses self test_features test_target;
            predictions = responses self features target
        in spec_loss test_predictions (rows test_target) (rows test_precision)
             (map2 (@) test_predictions predictions) (map2 (@) (rows test_target) (rows target)))"

text \<open>
  Training as the specification states it (section 4.4), for losses that are total
  functions of the model. Per batch: the loss is recorded, and the optimizer steps
  unless the loss is NaN or infinite. Per epoch: all batches in order, from an empty
  record. After an epoch training has converged when the mean losses of the four most
  recent epochs exist and their three consecutive differences are all below the
  threshold. Cross-validation training runs at most \<open>n\<close> more epochs, computes the held-out
  losses after each one and stops after the epoch that converged; it returns the model,
  the state of the optimizer, the two histories and the number of the last epoch.
\<close>

definition spec_batch ::
  "('m, 'o) optimizer \<Rightarrow> ('m \<Rightarrow> fl) \<Rightarrow> 'm \<times> 'o \<times> fl list \<Rightarrow> 'm \<times> 'o \<times> fl list" where
  "spec_batch step loss st =
     (case st of (m, opt, losses) \<Rightarrow>
        if isnan (loss m) \<or> isinf (loss m) then (m, opt, losses @ [loss m])
        else (case step opt m (\<lambda>m. Inr (loss m)) of (opt', m') \<Rightarrow> (m', opt', losses @ [loss m])))"

definition spec_epoch ::
  "('m, 'o) optimizer \<Rightarrow> ('m \<Rightarrow> fl) list \<Rightarrow> 'm \<times> 'o \<Rightarrow> 'm \<times> 'o \<times> fl list" where
  "spec_epoch step losses st = (case st of (m, opt) \<Rightarrow> fold (spec_batch step) losses (m, opt, []))"

definition spec_converged :: "fl \<Rightarrow> fl list list \<Rightarrow> bool" where
  "spec_converged train_thresh history =
     (case map fmean (rev history) of
        a # b # c # d # _ \<Rightarrow>
          flt (fabs (fsub a b)) train_thresh \<and> flt (fabs (fsub b c)) train_thresh \<and>
          flt (fabs (fsub c d)) train_thresh
      | _ \<Rightarrow> False)"

primrec spec_cv_training ::
  "('m, 'o) optimizer \<Rightarrow> ('m \<Rightarrow> fl) list \<Rightarrow> ('m \<Rightarrow> fl list) \<Rightarrow> fl \<Rightarrow> nat \<Rightarrow> nat \<Rightarrow> 'm \<times> 'o \<Rightarrow>
   fl list list \<Rightarrow> fl list list \<Rightarrow> 'm \<times> 'o \<times> fl list list \<times> fl list list \<times> nat" where
  "spec_cv_training step losses held_out train_thresh 0 t st train_history test_history =
     (fst st, snd st, train_history, test_history, t - 1)"
| "spec_cv_training step losses held_out train_thresh (Suc n) t st train_history test_history =
     (case spec_epoch step losses st of (m, opt, epoch_losses) \<Rightarrow>
        let train_history' = train_history @ [epoch_losses];
            test_history' = test_history @ [held_out m]
        in if spec_converged train_thresh train_history'
           then (m, opt, train_history', test_history', t)
           else spec_cv_training step losses held_out train_thresh n (Suc t) (m, opt)
                  train_history' test_history')"

text \<open>
  Cross-validation training on a training and a test dataset: the batches of the two
  datasets are paired in order, and the held-out losses are those of the voxels of the
  test dataset.
\<close>

definition spec_cross_validation ::
  "(donut, 'o) optimizer \<Rightarrow> (dataset \<Rightarrow> item list) \<Rightarrow> donut \<Rightarrow> 'o \<Rightarrow> dataset \<Rightarrow> dataset \<Rightarrow> nat \<Rightarrow> fl \<Rightarrow>
   donut \<times> 'o \<times> fl list list \<times> fl list list \<times> nat" where
  "spec_cross_validation step loader model opt train_dataset test_dataset max_epochs train_thresh =
     spec_cv_training step
       (map (\<lambda>stuff self. cv_loss self stuff) (zip (loader train_dataset) (loader test_dataset)))
       (\<lambda>self. map (held_out_loss self train_dataset test_dataset)
                 (unique (map (\<lambda>(r, i). col_voxel r) (df test_dataset))))
       train_thresh max_epochs 0 (model, opt) [] []"

text \<open>
  The classes that \<^verbatim>\<open>main\<close> holds out and those it trains on, for the classes \<open>S\<close> given
  as \<^verbatim>\<open>stimulus_class\<close>, and the dataset of the rows of given classes: the rows of the
  filtered table with one of these classes, each with the new index of its voxel among
  the voxels of the whole filtered table.
\<close>

definition held_out_classes :: "row list \<Rightarrow> int list \<Rightarrow> int list" where
  "held_out_classes table S =
     (if length S < length (other_classes table S) then S else other_classes table S)"

definition trained_classes :: "row list \<Rightarrow> int list \<Rightarrow> int list" where
  "trained_classes table S =
     (if length S < length (other_classes table S) then other_classes table S else S)"

definition selected :: "row list \<Rightarrow> (row list \<Rightarrow> row list) option \<Rightarrow> int list \<Rightarrow> dataset" where
  "selected table df_filter cs =
     (let new_idx = index_of (unique (map col_voxel (filtered table df_filter)));
          rs = filter (\<lambda>r. col_stimulus_class r \<in> set cs) (filtered table df_filter)
      in \<lparr>df = map (\<lambda>r. (r, new_idx (col_voxel r))) rs,
          stimulus_classes = unique (map col_stimulus_class rs)\<rparr>)"


text \<open>
  Examples. An optimizer that counts its steps and adds 1 to \<open>sigma\<close> at each; the
  isotropic model with a given \<open>sigma\<close>; a batch of one voxel and two stimulus classes
  at the peak of the isotropic model, with targets \<open>y\<close> and \<open>z\<close>, and its loss for the
  targets 1 and 2. The batches of a \<^verbatim>\<open>DataLoader\<close> with the default batch size 1: one voxel
  each, in the order of the new indices, every tensor with a leading dimension of length
  one. A table of one voxel and three stimulus classes with the amplitudes 1, 2 and 2,
  and the losses of a gradient step and of the held-out class on it when class 2 is
  held out.
\<close>

definition widen :: "(donut, nat) optimizer" where
  "widen opt m objective = (Suc opt, m\<lparr>sigma := \<lparr>data = fadd (data (sigma m)) (Fin 1), requires_grad = True\<rparr>\<rparr>)"

definition sigma_donut :: "real \<Rightarrow> donut" where
  "sigma_donut s = iso_donut\<lparr>sigma := \<lparr>data = Fin s, requires_grad = True\<rparr>\<rparr>"



definition unsqueeze :: "tensor \<Rightarrow> tensor" where
  "unsqueeze t = T2 (rows t)"

definition voxel_batches :: "dataset \<Rightarrow> item list" where
  "voxel_batches ds =
     map (\<lambda>idx. case getitem ds idx of
                  ((sf_mag, sf_angle, vox_ecc, vox_angle), target, precision) \<Rightarrow>
                    ((unsqueeze sf_mag, unsqueeze sf_angle, unsqueeze vox_ecc, unsqueeze vox_angle),
                     unsqueeze target, unsqueeze precision))
       [0..<len ds]"

definition amp_row :: "int \<Rightarrow> int \<Rightarrow> real \<Rightarrow> row" where
  "amp_row v c y = (mk_row v c)\<lparr>col_amplitude_estimate := Fin y\<rparr>"

definition one_voxel :: "row list" where
  "one_voxel = [amp_row 0 0 1, amp_row 0 1 2, amp_row 0 2 2]"

definition train_loss_value :: real where
  "train_loss_value = ((1 / sqrt 3 - 1 / 3)\<^sup>2 + (1 / sqrt 3 - 2 / 3)\<^sup>2) / 2"

definition test_loss_value :: real where
  "test_loss_value = (1 / sqrt 3 - 2 / 3)\<^sup>2"

section \<open>Proofs\<close>

subsection \<open>Errors\<close>

lemma bindE_simps [simp]: "bindE (Inl e) f = Inl e" "bindE (Inr v) f = f v"
  by (simp_all add: bindE_def)

lemma tbin_error: "tbin f x y = Inl e \<Longrightarrow> e = ShapeError"
  by (cases "(f, x, y)" rule: tbin.cases) (auto simp: of_option_def split: option.splits)

subsection \<open>The loss needs both tensors to norm by, or neither\<close>

text \<open>
  Claim C10. \<^verbatim>\<open>weighted_normed_loss\<close> called with exactly one of \<^verbatim>\<open>predictions_for_norm\<close>
  and \<^verbatim>\<open>target_for_norm\<close> raises and returns no loss: with the target alone the assertion
  fails, and with the predictions alone the norm of \<^verbatim>\<open>None\<close> is asked for, unless the
  division of the predictions by their norm has already failed on the shapes.
\<close>

theorem weighted_normed_loss_one_for_norm_raises:
  "weighted_normed_loss p t w None (Some tn) = Inl AssertionError \<and>
   (weighted_normed_loss p t w (Some pn) None = Inl AttributeError \<or>
    weighted_normed_loss p t w (Some pn) None = Inl ShapeError)"
proof
  show "weighted_normed_loss p t w None (Some tn) = Inl AssertionError"
    by (simp add: weighted_normed_loss_def Let_def)
next
  let ?p = "if tcontains (Fin 0) (tnorm p) then tmap (\<lambda>x. fmul x (Fin (10 ^ 100))) p else p"
  have eq: "weighted_normed_loss p t w (Some pn) None =
        bindE (tbin fdiv ?p (tnorm pn)) (\<lambda>np. Inl AttributeError)"
    by (simp add: weighted_normed_loss_def Let_def)
  show "weighted_normed_loss p t w (Some pn) None = Inl AttributeError \<or>
        weighted_normed_loss p t w (Some pn) None = Inl ShapeError"
  proof (cases "tbin fdiv ?p (tnorm pn)")
    case (Inl e)
    then have "e = ShapeError" by (rule tbin_error)
    with Inl eq show ?thesis by simp
  next
    case (Inr v)
    with eq show ?thesis by simp
  qed
qed

subsection \<open>The constructor corrects a disabled parameter\<close>

lemma disable_zeroed: "zeroed k st \<Longrightarrow> zeroed k (disable w k' st)"
  by (cases st) (auto simp: zeroed_def disable_def fne_def)

lemma disable_pending: "pending k st \<Longrightarrow> pending k (disable w k' st)"
  by (cases st) (auto simp: pending_def zeroed_def disable_def fne_def)

lemma disable_hits: "pending k st \<Longrightarrow> zeroed k (disable w k st)"
  by (cases st) (auto simp: pending_def zeroed_def disable_def fne_def)

lemma fold_disable_pending: "pending k st \<Longrightarrow> pending k (fold (\<lambda>x. disable w (g x)) xs st)"
  by (induction xs arbitrary: st) (simp_all add: disable_pending)

lemma fold_disable_zeroed: "zeroed k st \<Longrightarrow> zeroed k (fold (\<lambda>x. disable w (g x)) xs st)"
  by (induction xs arbitrary: st) (simp_all add: disable_zeroed)

lemma fold_disable_hits:
  "pending k st \<Longrightarrow> k \<in> g ` set xs \<Longrightarrow> zeroed k (fold (\<lambda>x. disable w (g x)) xs st)"
proof (induction xs arbitrary: st)
  case Nil
  then show ?case by simp
next
  case (Cons x xs)
  show ?case
  proof (cases "k = g x")
    case True
    then have "zeroed k (disable w (g x) st)" using Cons.prems(1) by (simp add: disable_hits)
    then show ?thesis by (simp add: fold_disable_zeroed)
  next
    case False
    with Cons.prems have "k \<in> g ` set xs" by auto
    moreover have "pending k (disable w (g x) st)" using Cons.prems(1) by (rule disable_pending)
    ultimately show ?thesis using Cons.IH by simp
  qed
qed

lemma case_prod_disable: "(\<lambda>(p, a). disable w (h p a)) = (\<lambda>x. disable w (case_prod h x))"
  by (simp add: fun_eq_iff split: prod.splits)

lemma zeroed_stored:
  "zeroed k (kwargs, train_kwargs, ws) \<Longrightarrow>
   d = \<lparr>orientation_type = ot, eccentricity_type = et, vary_amplitude = va, model_type = mt,
        sigma = sg,
        abs_amplitude_cardinals = cast_as_param (kwargs (Ori Abs Amplitude Cardinals)) (train_kwargs (Ori Abs Amplitude Cardinals)),
        abs_amplitude_obliques = cast_as_param (kwargs (Ori Abs Amplitude Obliques)) (train_kwargs (Ori Abs Amplitude Obliques)),
        rel_amplitude_cardinals = cast_as_param (kwargs (Ori Rel Amplitude Cardinals)) (train_kwargs (Ori Rel Amplitude Cardinals)),
        rel_amplitude_obliques = cast_as_param (kwargs (Ori Rel Amplitude Obliques)) (train_kwargs (Ori Rel Amplitude Obliques)),
        abs_mode_cardinals = cast_as_param (kwargs (Ori Abs Mode Cardinals)) (train_kwargs (Ori Abs Mode Cardinals)),
        abs_mode_obliques = cast_as_param (kwargs (Ori Abs Mode Obliques)) (train_kwargs (Ori Abs Mode Obliques)),
        rel_mode_cardinals = cast_as_param (kwargs (Ori Rel Mode Cardinals)) (train_kwargs (Ori Rel Mode Cardinals)),
        rel_mode_obliques = cast_as_param (kwargs (Ori Rel Mode Obliques)) (train_kwargs (Ori Rel Mode Obliques)),
        sf_ecc_slope = cast_as_param (kwargs (SfEcc Slope)) (train_kwargs (SfEcc Slope)),
        sf_ecc_intercept = cast_as_param (kwargs (SfEcc Intercept)) (train_kwargs (SfEcc Intercept))\<rparr> \<Longrightarrow>
   data (stored d k) = Fin 0 \<and> \<not> requires_grad (stored d k) \<and> ws \<noteq> []"
  by (cases "(d, k)" rule: stored.cases) (auto simp: zeroed_def cast_as_param_def)

text \<open>
  Claim C5. For a model variant the constructor accepts, an argument that the variant
  disables and whose initial value is not zero does not make the constructor raise: it
  returns a model, has issued a warning, and stores the parameter as 0 with
  \<^verbatim>\<open>requires_grad\<close> false. With \<^verbatim>\<open>orientation_type='iso'\<close> this holds for
  \<^verbatim>\<open>abs_mode_cardinals\<close> and \<^verbatim>\<open>rel_mode_cardinals\<close> in particular.
\<close>

theorem init_corrects_disabled:
  assumes ot: "ot \<in> set [''relative'', ''absolute'', ''iso'', ''full'']"
    and et: "et \<in> set [''scaling'', ''constant'', ''full'']"
    and dis: "disabled ot et va k"
    and nz: "fne (args k) (Fin 0)"
  shows "\<exists>d ws. init ot et va sigma0 args = Inr (d, ws) \<and> ws \<noteq> [] \<and>
           data (stored d k) = Fin 0 \<and> \<not> requires_grad (stored d k)"
proof -
  define st0 :: init_state where "st0 = (args, (\<lambda>k. True), [])"
  define st1 where "st1 = (if ot \<in> set [''relative'', ''iso'']
                 then fold (\<lambda>(p, a). disable (AbsoluteMustBeZero ot) (Ori Abs p a))
                        (List.product [Mode, Amplitude] [Cardinals, Obliques]) st0
                 else st0)"
  define st2 where "st2 = (if ot \<in> set [''absolute'', ''iso'']
                 then fold (\<lambda>(p, a). disable (RelativeMustBeZero ot) (Ori Rel p a))
                        (List.product [Mode, Amplitude] [Cardinals, Obliques]) st1
                 else st1)"
  define st3 where "st3 = (if \<not> va
                      then fold (\<lambda>(or, a). disable AmplitudeMustBeZero (Ori or Amplitude a))
                             (List.product [Abs, Rel] [Cardinals, Obliques]) st2
                      else st2)"
  define st4 where "st4 = (if et = ''scaling'' then disable InterceptMustBeZero (SfEcc Intercept) st3
                      else if et = ''constant'' then disable SlopeMustBeZero (SfEcc Slope) st3
                      else st3)"
  have p0: "pending k st0" using nz by (simp add: pending_def st0_def)
  have p1: "pending k st1" unfolding st1_def case_prod_disable
    using p0 by (simp only: fold_disable_pending if_split) simp
  have p2: "pending k st2" unfolding st2_def case_prod_disable
    using p1 by (simp only: fold_disable_pending if_split) simp
  have p3: "pending k st3" unfolding st3_def case_prod_disable
    using p2 by (simp only: fold_disable_pending if_split) simp
  have z1: "zeroed k st1 \<Longrightarrow> zeroed k st2" unfolding st2_def case_prod_disable
    by (simp add: disable_zeroed)
  have z2: "zeroed k st2 \<Longrightarrow> zeroed k st3" unfolding st3_def case_prod_disable
    by (simp add: disable_zeroed)
  have z3: "zeroed k st3 \<Longrightarrow> zeroed k st4" unfolding st4_def
    by (simp add: disable_zeroed)
  have z4: "zeroed k st4"
  proof (cases k)
    case (Ori o' p a)
    show ?thesis
    proof (cases "p = Amplitude \<and> \<not> va")
      case True
      have "k \<in> (\<lambda>(or, a). Ori or Amplitude a) ` set (List.product [Abs, Rel] [Cardinals, Obliques])"
        using True Ori by (cases o'; cases a) auto
      then have "zeroed k st3" unfolding st3_def case_prod_disable
        using p2 True by (simp only: fold_disable_hits if_True simp_thms)
      then show ?thesis by (rule z3)
    next
      case False
      show ?thesis
      proof (cases o')
        case Abs
        with dis Ori False have m: "ot \<in> set [''relative'', ''iso'']" by auto
        have "k \<in> (\<lambda>(p, a). Ori Abs p a) ` set (List.product [Mode, Amplitude] [Cardinals, Obliques])"
          using Ori Abs by (cases p; cases a) auto
        then have "zeroed k st1" unfolding st1_def case_prod_disable
          using p0 m by (simp only: fold_disable_hits if_True)
        then show ?thesis by (intro z3 z2 z1)
      next
        case Rel
        with dis Ori False have m: "ot \<in> set [''absolute'', ''iso'']" by auto
        have "k \<in> (\<lambda>(p, a). Ori Rel p a) ` set (List.product [Mode, Amplitude] [Cardinals, Obliques])"
          using Ori Rel by (cases p; cases a) auto
        then have "zeroed k st2" unfolding st2_def case_prod_disable
          using p1 m by (simp only: fold_disable_hits if_True)
        then show ?thesis by (intro z3 z2)
      qed
    qed
  next
    case (SfEcc v)
    show ?thesis
    proof (cases v)
      case Slope
      with dis SfEcc have "et = ''constant''" by simp
      then show ?thesis unfolding st4_def using p3 SfEcc Slope by (simp add: disable_hits)
    next
      case Intercept
      with dis SfEcc have "et = ''scaling''" by simp
      then show ?thesis unfolding st4_def using p3 SfEcc Intercept by (simp add: disable_hits)
    qed
  qed
  obtain kwargs train_kwargs ws where st4: "st4 = (kwargs, train_kwargs, ws)"
    by (cases st4) auto
  have ot': "(ot \<notin> set [''relative'', ''absolute'', ''iso'', ''full'']) = False"
    using ot by simp
  have et': "(if et = ''scaling'' then Inr (disable InterceptMustBeZero (SfEcc Intercept) st3)
              else if et = ''constant'' then Inr (disable SlopeMustBeZero (SfEcc Slope) st3)
              else if et \<noteq> ''full'' then Inl (UnknownEccentricityType et)
              else Inr st3) = (Inr (kwargs, train_kwargs, ws) :: error + init_state)"
    using et st4 by (auto simp: st4_def)
  have "\<exists>d. init ot et va sigma0 args = Inr (d, ws) \<and>
          data (stored d k) = Fin 0 \<and> \<not> requires_grad (stored d k) \<and> ws \<noteq> []"
    unfolding init_def Let_def st0_def[symmetric] st1_def[symmetric] st2_def[symmetric]
      st3_def[symmetric] ot' if_False et' bindE_simps prod.case
    using zeroed_stored[OF z4[unfolded st4] refl] by blast
  then show ?thesis by blast
qed

theorem init_corrects_disabled_witness:
  "disabled ''iso'' ''full'' True (Ori Rel Mode Cardinals) \<and> fne (Fin (1 / 2)) (Fin 0) \<and>
   (\<exists>d ws. init ''iso'' ''full'' True (Fin (4 / 10)) (\<lambda>k. Fin (1 / 2)) = Inr (d, ws) \<and> ws \<noteq> [] \<and>
      data (stored d (Ori Rel Mode Cardinals)) = Fin 0 \<and>
      \<not> requires_grad (stored d (Ori Rel Mode Cardinals)))"
  using init_corrects_disabled [of "''iso''" "''full''" True "Ori Rel Mode Cardinals"
      "\<lambda>k. Fin (1 / 2)" "Fin (4 / 10)"]
  by (simp add: fne_def)

subsection \<open>Vectors of unequal shapes that pass the check of the shapes\<close>

lemma init_iso: "init ''iso'' ''full'' True (Fin (4 / 10)) default_args = Inr (iso_donut, [])"
  by (simp add: init_def Let_def disable_def default_args_def fne_def iso_donut_def
      cast_as_param_def)

lemmas evaluate_defs =
  preferred_period_def max_amplitude_def evaluate_def orientation_sum_def cos_term_def
  iso_donut_def bvec_def bmat_def of_option_def fclamp_min_def Let_def fsub_def

text \<open>
  Claim C7. The check of \<^verbatim>\<open>preferred_period\<close> is the chained comparison
  \<^verbatim>\<open>sf_angle.shape != vox_ecc.shape != vox_angle.shape\<close>, which is false as soon as two
  neighbours agree. Three vectors of shapes (1), (1) and (3) pass it, and both
  \<^verbatim>\<open>preferred_period\<close> and \<^verbatim>\<open>evaluate\<close> return a value; with shapes (2), (2) and (3) the
  check is passed as well and the call only fails later, in torch's broadcasting. The
  usage error is raised when both neighbouring pairs differ, as for (2), (3), (2).
\<close>

theorem preferred_period_accepts_unequal_vectors:
  "preferred_period iso_donut (T1 [Fin 0]) (T1 [Fin 1]) (T1 [Fin 0, Fin 0, Fin 0]) =
     Inr (T1 [Fin 1, Fin 1, Fin 1]) \<and>
   evaluate iso_donut (T0 (Fin 1)) (T1 [Fin 0]) (T1 [Fin 1]) (T1 [Fin 0, Fin 0, Fin 0]) =
     Inr (T2 [[Fin 1, Fin 1, Fin 1], [Fin 1, Fin 1, Fin 1], [Fin 1, Fin 1, Fin 1]]) \<and>
   preferred_period iso_donut (T1 [Fin 0, Fin 0]) (T1 [Fin 1, Fin 1]) (T1 [Fin 0, Fin 0, Fin 0]) =
     Inl ShapeError \<and>
   preferred_period iso_donut (T1 [Fin 0, Fin 0]) (T1 [Fin 1, Fin 1, Fin 1]) (T1 [Fin 0, Fin 0]) =
     Inl OnlyTwoNonSingletons"
  by (simp add: evaluate_defs)

subsection \<open>A batch whose loss is NaN or infinite\<close>

text \<open>
  Claim C6. In the batch loop of either training function, when the loss of a batch (the
  objective at the current model) is NaN or infinite, the loss is appended to the losses
  of the epoch, the optimizer does not step, so the model and the state of the optimizer
  are unchanged, and the loop goes on with the remaining batches from that very state:
  nothing is raised.
\<close>

theorem nan_loss_skips_step:
  assumes "objective m = Inr loss" and "isnan loss \<or> isinf loss"
  shows "batch_step step objective (m, opt, losses) = Inr (m, opt, losses @ [loss]) \<and>
         run_batches step (objective # obs) (m, opt, losses) =
           run_batches step obs (m, opt, losses @ [loss])"
  using assms by (simp add: batch_step_def)

theorem nan_loss_skips_step_witness:
  "(\<lambda>m::nat. Inr NaN :: error + fl) 0 = Inr NaN \<and> (isnan NaN \<or> isinf NaN) \<and>
   run_batches (\<lambda>opt m ob. (opt, Suc m)) [\<lambda>m. Inr NaN, \<lambda>m. Inr PInf] (0, (), []) =
     Inr (0, (), [NaN, PInf])"
  using nan_loss_skips_step [of "\<lambda>m::nat. Inr NaN" 0 NaN "\<lambda>opt m ob. (opt, Suc m)" "()" "[]" "[\<lambda>m. Inr PInf]"]
  by (simp add: batch_step_def)

subsection \<open>Training stops after four epochs when every difference is below the threshold\<close>





lemma iso_sigma_donut: "iso_donut = sigma_donut (4 / 10)"
  by (simp add: sigma_donut_def iso_donut_def)

lemma widen_sigma_donut: "widen k (sigma_donut s) ob = (Suc k, sigma_donut (s + 1))"
  by (simp add: widen_def sigma_donut_def iso_donut_def)









subsection \<open>Broadcasting\<close>

lemma bvec_col: "bvec f xs [c] = Some (map (\<lambda>x. f x c) xs)"
  by (cases xs) (auto simp: bvec_def)

lemma bvec_col_left: "bvec f [c] ys = Some (map (f c) ys)"
  by (cases ys) (auto simp: bvec_def)

lemma bvec_same: "length xs = length ys \<Longrightarrow> bvec f xs ys = Some (map2 f xs ys)"
  by (simp add: bvec_def)

lemma collect_Some: "collect (map Some zs) = Some zs"
  by (induction zs) simp_all

lemma bmat_rows:
  assumes "length xss = length yss"
    and "\<And>i. i < length xss \<Longrightarrow> bvec f (xss ! i) (yss ! i) = Some (g i)"
  shows "bmat f xss yss = Some (map g [0..<length xss])"
proof -
  have "map2 (bvec f) xss yss = map Some (map g [0..<length xss])"
    using assms by (intro nth_equalityI) simp_all
  then show ?thesis
    using assms(1) collect_Some[of "map g [0..<length xss]"] by (simp add: bmat_def)
qed

lemma bmat_col:
  assumes "length xss = length cs"
  shows "bmat f xss (map (\<lambda>c. [c]) cs) = Some (map (\<lambda>i. map (\<lambda>x. f x (cs ! i)) (xss ! i)) [0..<length xss])"
  using assms by (intro bmat_rows) (simp_all add: bvec_col)

lemma bmat_col_left:
  assumes "length cs = length yss"
  shows "bmat f (map (\<lambda>c. [c]) cs) yss = Some (map (\<lambda>i. map (f (cs ! i)) (yss ! i)) [0..<length yss])"
  using bmat_rows[of "map (\<lambda>c. [c]) cs" yss f "\<lambda>i. map (f (cs ! i)) (yss ! i)"] assms
  by (simp add: bvec_col_left)

lemma tbin_rows_same:
  assumes "\<And>i. i < n \<Longrightarrow> length (g i) = length (h i)"
  shows "tbin f (T2 (map g [0..<n])) (T2 (map h [0..<n])) =
           Inr (T2 (map (\<lambda>i. map2 f (g i) (h i)) [0..<n]))"
proof -
  have "bmat f (map g [0..<n]) (map h [0..<n]) =
          Some (map (\<lambda>i. map2 f (g i) (h i)) [0..<length (map g [0..<n])])"
    by (rule bmat_rows) (simp_all add: assms bvec_same)
  then show ?thesis by (simp add: of_option_def)
qed

lemma tmap_rows: "tmap f (T2 (map g [0..<n])) = T2 (map (\<lambda>i. map f (g i)) [0..<n])"
  by simp

lemma tbin_col_left:
  assumes "length cs = n"
  shows "tbin f (T2 (map (\<lambda>c. [c]) cs)) (T2 (map h [0..<n])) =
           Inr (T2 (map (\<lambda>i. map (f (cs ! i)) (h i)) [0..<n]))"
proof -
  have "bmat f (map (\<lambda>c. [c]) cs) (map h [0..<n]) =
          Some (map (\<lambda>i. map (f (cs ! i)) (map h [0..<n] ! i)) [0..<length (map h [0..<n])])"
    by (rule bmat_col_left) (simp add: assms)
  also have "map (\<lambda>i. map (f (cs ! i)) (map h [0..<n] ! i)) [0..<length (map h [0..<n])] =
             map (\<lambda>i. map (f (cs ! i)) (h i)) [0..<n]"
    by simp
  finally show ?thesis by (simp add: of_option_def)
qed

subsection \<open>The response of the model, element by element\<close>

text \<open>Tensors that hold given elements at the positions of a shape.\<close>

lemma pointwiseI:
  "conforms s z \<Longrightarrow> ndimension z = k \<Longrightarrow> (\<And>i j. valid s i j \<Longrightarrow> elem_at z i j = g i j) \<Longrightarrow>
   pointwise s k z g"
  by (simp add: pointwise_def)

lemma pointwise_conforms: "pointwise s k z g \<Longrightarrow> conforms s z"
  by (simp add: pointwise_def)

lemma pointwise_ndim: "pointwise s k z g \<Longrightarrow> ndimension z = k"
  by (simp add: pointwise_def)

lemma pointwise_val: "pointwise s k z g \<Longrightarrow> valid s i j \<Longrightarrow> elem_at z i j = g i j"
  by (simp add: pointwise_def)

lemma pointwise_at: "conforms s x \<Longrightarrow> pointwise s (ndimension x) x (elem_at x)"
  by (simp add: pointwise_def)

lemma conforms_T2:
  "conforms s (T2 xss) = (\<exists>c. s = [length xss, c] \<and> (\<forall>row\<in>set xss. length row = c))"
  by (auto simp: list_all_iff split: list.splits)

declare conforms.simps(3) [simp del]

lemma conforms_T2I: "\<forall>row\<in>set xss. length row = c \<Longrightarrow> conforms [length xss, c] (T2 xss)"
  by (simp add: conforms_T2)

lemma pointwise_tmap:
  assumes "pointwise s k x g"
  shows "pointwise s k (tmap f x) (\<lambda>i j. f (g i j))"
proof (cases x)
  case (T0 a)
  show ?thesis
    using pointwise_ndim[OF assms] pointwise_val[OF assms] unfolding T0
    by (intro pointwiseI) simp_all
next
  case (T1 xs)
  have s: "s = [length xs]" using pointwise_conforms[OF assms] unfolding T1 by simp
  show ?thesis
    using pointwise_ndim[OF assms] pointwise_val[OF assms] unfolding T1 s
    by (intro pointwiseI) simp_all
next
  case (T2 xss)
  from pointwise_conforms[OF assms] obtain c where
    s: "s = [length xss, c]" and rows: "\<forall>row\<in>set xss. length row = c"
    unfolding T2 conforms_T2 by blast
  have c: "conforms [length xss, c] (tmap f (T2 xss))"
    using rows by (simp add: conforms_T2)
  have v: "elem_at (tmap f (T2 xss)) i j = f (g i j)" if "valid [length xss, c] i j" for i j
  proof -
    have "xss ! i ! j = g i j" using pointwise_val[OF assms, of i j] that unfolding T2 s by simp
    moreover have "j < length (xss ! i)" using that rows by simp
    ultimately show ?thesis using that by simp
  qed
  show ?thesis unfolding T2 s
    using c pointwise_ndim[OF assms] v unfolding T2 by (intro pointwiseI) simp_all
qed

lemma pointwise_tbin:
  assumes x: "pointwise s k x g" and y: "pointwise s l y h"
  shows "\<exists>z. tbin f x y = Inr z \<and> pointwise s (max k l) z (\<lambda>i j. f (g i j) (h i j))"
proof -
  note kx = pointwise_ndim[OF x] and ky = pointwise_ndim[OF y]
  note vx = pointwise_val[OF x] and vy = pointwise_val[OF y]
  note cx = pointwise_conforms[OF x] and cy = pointwise_conforms[OF y]
  consider (scalar) a b where "x = T0 a" "y = T0 b"
    | (sv) a ys where "x = T0 a" "y = T1 ys"
    | (sm) a yss where "x = T0 a" "y = T2 yss"
    | (vs) xs b where "x = T1 xs" "y = T0 b"
    | (vv) xs ys where "x = T1 xs" "y = T1 ys"
    | (ms) xss b where "x = T2 xss" "y = T0 b"
    | (mm) xss yss where "x = T2 xss" "y = T2 yss"
    | (mixed) "ndimension x + ndimension y = 3"
    by (cases x; cases y) auto
  then show ?thesis
  proof cases
    case scalar
    have "pointwise s (max k l) (T0 (f a b)) (\<lambda>i j. f (g i j) (h i j))"
      using kx ky vx vy unfolding scalar by (intro pointwiseI) simp_all
    then show ?thesis unfolding scalar by simp
  next
    case sv
    have s: "s = [length ys]" using cy unfolding sv by simp
    have "pointwise s (max k l) (T1 (map (f a) ys)) (\<lambda>i j. f (g i j) (h i j))"
      using kx ky vx vy unfolding sv s by (intro pointwiseI) simp_all
    then show ?thesis unfolding sv by simp
  next
    case vs
    have s: "s = [length xs]" using cx unfolding vs by simp
    have "pointwise s (max k l) (T1 (map (\<lambda>x. f x b) xs)) (\<lambda>i j. f (g i j) (h i j))"
      using kx ky vx vy unfolding vs s by (intro pointwiseI) simp_all
    then show ?thesis unfolding vs by simp
  next
    case vv
    have s: "s = [length xs]" using cx unfolding vv by simp
    have len: "length ys = length xs" using cy unfolding vv s by simp
    have "pointwise s (max k l) (T1 (map2 f xs ys)) (\<lambda>i j. f (g i j) (h i j))"
      using kx ky vx vy len unfolding vv s by (intro pointwiseI) simp_all
    then show ?thesis unfolding vv using len by (simp add: bvec_same of_option_def)
  next
    case sm
    from cy obtain c where s: "s = [length yss, c]" and rows: "\<forall>row\<in>set yss. length row = c"
      unfolding sm conforms_T2 by blast
    have v: "elem_at (T2 (map (map (f a)) yss)) i j = f (g i j) (h i j)"
      if "valid [length yss, c] i j" for i j
    proof -
      have "yss ! i ! j = h i j" "a = g i j"
        using vx[of i j] vy[of i j] that unfolding sm s by simp_all
      moreover have "j < length (yss ! i)" using that rows by simp
      ultimately show ?thesis using that by simp
    qed
    have "pointwise s (max k l) (T2 (map (map (f a)) yss)) (\<lambda>i j. f (g i j) (h i j))"
      unfolding s using kx ky v rows unfolding sm
      by (intro pointwiseI) (simp_all add: conforms_T2)
    then show ?thesis unfolding sm by simp
  next
    case ms
    from cx obtain c where s: "s = [length xss, c]" and rows: "\<forall>row\<in>set xss. length row = c"
      unfolding ms conforms_T2 by blast
    have v: "elem_at (T2 (map (map (\<lambda>x. f x b)) xss)) i j = f (g i j) (h i j)"
      if "valid [length xss, c] i j" for i j
    proof -
      have "xss ! i ! j = g i j" "b = h i j"
        using vx[of i j] vy[of i j] that unfolding ms s by simp_all
      moreover have "j < length (xss ! i)" using that rows by simp
      ultimately show ?thesis using that by simp
    qed
    have "pointwise s (max k l) (T2 (map (map (\<lambda>x. f x b)) xss)) (\<lambda>i j. f (g i j) (h i j))"
      unfolding s using kx ky v rows unfolding ms
      by (intro pointwiseI) (simp_all add: conforms_T2)
    then show ?thesis unfolding ms by simp
  next
    case mm
    from cx obtain c where s: "s = [length xss, c]" and rows: "\<forall>row\<in>set xss. length row = c"
      unfolding mm conforms_T2 by blast
    from cy have ys: "length yss = length xss" "\<forall>row\<in>set yss. length row = c"
      unfolding mm s conforms_T2 by auto
    let ?z = "map (\<lambda>i. map2 f (xss ! i) (yss ! i)) [0..<length xss]"
    have b: "bmat f xss yss = Some ?z"
      using ys rows by (intro bmat_rows) (simp_all add: bvec_same)
    have v: "elem_at (T2 ?z) i j = f (g i j) (h i j)" if "valid [length xss, c] i j" for i j
    proof -
      have "xss ! i ! j = g i j" "yss ! i ! j = h i j"
        using vx[of i j] vy[of i j] that unfolding mm s by simp_all
      moreover have "j < length (xss ! i)" "j < length (yss ! i)" using that rows ys by simp_all
      ultimately show ?thesis using that by simp
    qed
    have cz: "conforms [length xss, c] (T2 ?z)"
      using rows ys by (simp add: conforms_T2)
    have "pointwise s (max k l) (T2 ?z) (\<lambda>i j. f (g i j) (h i j))"
      unfolding s using kx ky v cz unfolding mm by (intro pointwiseI) simp_all
    then show ?thesis unfolding mm using b by (simp add: of_option_def)
  next
    case mixed
    then consider xs yss where "x = T1 xs" "y = T2 yss" | xss ys where "x = T2 xss" "y = T1 ys"
      by (cases x; cases y) auto
    then have False
    proof cases
      case 1
      then show False using cx cy by (auto simp: conforms_T2)
    next
      case 2
      then show False using cx cy by (auto simp: conforms_T2)
    qed
    then show ?thesis ..
  qed
qed

lemma pointwise_tabulate:
  assumes "pointwise s k z g" and "k = length s"
  shows "z = tabulate s g"
proof (cases z)
  case (T0 a)
  have "s = []" using pointwise_ndim[OF assms(1)] assms(2) unfolding T0 by simp
  then show ?thesis using pointwise_val[OF assms(1), of 0 0] unfolding T0 by simp
next
  case (T1 xs)
  have s: "s = [length xs]" using pointwise_conforms[OF assms(1)] unfolding T1 by simp
  have "xs ! j = g 0 j" if "j < length xs" for j
    using pointwise_val[OF assms(1), of 0 j] that unfolding T1 s by simp
  then have "xs = map (g 0) [0..<length xs]"
    by (intro nth_equalityI) simp_all
  then show ?thesis unfolding T1 s by simp
next
  case (T2 xss)
  from pointwise_conforms[OF assms(1)] obtain c where
    s: "s = [length xss, c]" and rows: "\<forall>row\<in>set xss. length row = c"
    unfolding T2 conforms_T2 by blast
  have v: "xss ! i ! j = g i j" if "i < length xss" "j < c" for i j
    using pointwise_val[OF assms(1), of i j] that unfolding T2 s by simp
  have row: "xss ! i = map (g i) [0..<c]" if "i < length xss" for i
  proof -
    have "length (xss ! i) = c" using that rows by simp
    then show ?thesis using v[OF that] by (intro nth_equalityI) simp_all
  qed
  have "xss = map (\<lambda>i. map (g i) [0..<c]) [0..<length xss]"
    using row by (intro nth_equalityI) simp_all
  then show ?thesis unfolding T2 s by simp
qed

lemma pointwise_rank: "pointwise s k z g \<Longrightarrow> k = l \<Longrightarrow> pointwise s l z g"
  by simp

text \<open>
  Every step of the model is an elementwise operation: on tensors that conform to one
  shape it neither fails nor leaves the shape, and it holds at each position the result
  of the operation on the elements at this position.
\<close>

lemma orientation_sum_pointwise:
  assumes a: "pointwise s k a ga" and r: "pointwise s l rel gr"
  shows "\<exists>z. orientation_sum ac ao rc ro a rel = Inr z \<and>
           pointwise s (max k l) z (\<lambda>i j. spec_orientation ac ao rc ro (ga i j) (gr i j))"
proof -
  have t1: "pointwise s k (tmap (fadd (Fin 1)) (cos_term ac 2 a))
              (\<lambda>i j. fadd (Fin 1) (fmul ac (fcos (fmul (Fin 2) (ga i j)))))"
    unfolding cos_term_def by (intro pointwise_tmap a)
  have t2: "pointwise s k (cos_term ao 4 a) (\<lambda>i j. fmul ao (fcos (fmul (Fin 4) (ga i j))))"
    unfolding cos_term_def by (intro pointwise_tmap a)
  have t3: "pointwise s l (cos_term rc 2 rel) (\<lambda>i j. fmul rc (fcos (fmul (Fin 2) (gr i j))))"
    unfolding cos_term_def by (intro pointwise_tmap r)
  have t4: "pointwise s l (cos_term ro 4 rel) (\<lambda>i j. fmul ro (fcos (fmul (Fin 4) (gr i j))))"
    unfolding cos_term_def by (intro pointwise_tmap r)
  from pointwise_tbin[OF t1 t2, of fadd] obtain s2 where
    s2: "tbin fadd (tmap (fadd (Fin 1)) (cos_term ac 2 a)) (cos_term ao 4 a) = Inr s2"
        "pointwise s (max k k) s2 (\<lambda>i j. fadd (fadd (Fin 1) (fmul ac (fcos (fmul (Fin 2) (ga i j)))))
                                      (fmul ao (fcos (fmul (Fin 4) (ga i j)))))"
    by blast
  from pointwise_tbin[OF s2(2) t3, of fadd] obtain s3 where
    s3: "tbin fadd s2 (cos_term rc 2 rel) = Inr s3"
        "pointwise s (max (max k k) l) s3
           (\<lambda>i j. fadd (fadd (fadd (Fin 1) (fmul ac (fcos (fmul (Fin 2) (ga i j)))))
                                      (fmul ao (fcos (fmul (Fin 4) (ga i j)))))
                         (fmul rc (fcos (fmul (Fin 2) (gr i j)))))"
    by blast
  from pointwise_tbin[OF s3(2) t4, of fadd] obtain s4 where
    s4: "tbin fadd s3 (cos_term ro 4 rel) = Inr s4"
        "pointwise s (max (max (max k k) l) l) s4
           (\<lambda>i j. fadd (fadd (fadd (fadd (Fin 1) (fmul ac (fcos (fmul (Fin 2) (ga i j)))))
                                      (fmul ao (fcos (fmul (Fin 4) (ga i j)))))
                         (fmul rc (fcos (fmul (Fin 2) (gr i j)))))
                     (fmul ro (fcos (fmul (Fin 4) (gr i j)))))"
    by blast
  have "orientation_sum ac ao rc ro a rel = Inr s4"
    by (simp add: orientation_sum_def s2(1) s3(1) s4(1))
  moreover have "pointwise s (max k l) s4 (\<lambda>i j. spec_orientation ac ao rc ro (ga i j) (gr i j))"
    unfolding spec_orientation_def using s4(2) by (rule pointwise_rank) simp
  ultimately show ?thesis by blast
qed

lemma check_and_reshape_conforms:
  "conforms s x \<Longrightarrow> conforms s y \<Longrightarrow> check_and_reshape_tensors x y = (x, y)"
  by (cases x; cases y) auto

lemma preferred_period_shapes:
  assumes "conforms s a" "conforms s e" "conforms s r"
  shows "(if ndimension a = 1 \<and> ndimension e = 1 \<and> ndimension r = 1
        then (if shape a \<noteq> shape e \<and> shape e \<noteq> shape r
              then Inl OnlyTwoNonSingletons
              else Inr (a, e, r))
        else (case check_and_reshape_tensors a e of (sf_angle1, vox_ecc1) \<Rightarrow>
              case check_and_reshape_tensors vox_ecc1 r of (vox_ecc2, vox_angle1) \<Rightarrow>
              case check_and_reshape_tensors sf_angle1 vox_angle1 of (sf_angle2, vox_angle2) \<Rightarrow>
                Inr (sf_angle2, vox_ecc2, vox_angle2))) = (Inr (a, e, r) :: error + tensor \<times> tensor \<times> tensor)"
proof (cases "ndimension a = 1 \<and> ndimension e = 1 \<and> ndimension r = 1")
  case True
  then obtain xs ys zs where "a = T1 xs" "e = T1 ys" "r = T1 zs"
    by (cases a; cases e; cases r) auto
  then show ?thesis using assms by auto
next
  case False
  then show ?thesis using assms by (simp add: check_and_reshape_conforms)
qed

lemma preferred_period_reshaped:
  assumes g: "(if ndimension a = 1 \<and> ndimension e = 1 \<and> ndimension r = 1
        then (if shape a \<noteq> shape e \<and> shape e \<noteq> shape r
              then Inl OnlyTwoNonSingletons
              else Inr (a, e, r))
        else (case check_and_reshape_tensors a e of (sf_angle1, vox_ecc1) \<Rightarrow>
              case check_and_reshape_tensors vox_ecc1 r of (vox_ecc2, vox_angle1) \<Rightarrow>
              case check_and_reshape_tensors sf_angle1 vox_angle1 of (sf_angle2, vox_angle2) \<Rightarrow>
                Inr (sf_angle2, vox_ecc2, vox_angle2))) = (Inr (a', e', r') :: error + tensor \<times> tensor \<times> tensor)"
    and pa: "pointwise s ka a' ga" and pe: "pointwise s ke e' ge" and pr: "pointwise s kr r' gr"
  shows "\<exists>z. preferred_period self a e r = Inr z \<and>
           pointwise s (max ke (max ka kr)) z
             (\<lambda>i j. spec_preferred_period self (ga i j) (ge i j) (gr i j))"
proof -
  from pointwise_tbin[OF pa pr, of fsub] obtain rel where
    rel: "tbin fsub a' r' = Inr rel"
         "pointwise s (max ka kr) rel (\<lambda>i j. fsub (ga i j) (gr i j))"
    by blast
  have ecc: "pointwise s ke
               (tmap (\<lambda>x. fadd (fmul (data (sf_ecc_slope self)) x) (data (sf_ecc_intercept self))) e')
               (\<lambda>i j. fadd (fmul (data (sf_ecc_slope self)) (ge i j)) (data (sf_ecc_intercept self)))"
    by (intro pointwise_tmap pe)
  from orientation_sum_pointwise[OF pa rel(2)] obtain ori where
    ori: "orientation_sum (data (abs_mode_cardinals self)) (data (abs_mode_obliques self))
            (data (rel_mode_cardinals self)) (data (rel_mode_obliques self)) a' rel = Inr ori"
         "pointwise s (max ka (max ka kr)) ori
            (\<lambda>i j. spec_orientation (data (abs_mode_cardinals self)) (data (abs_mode_obliques self))
               (data (rel_mode_cardinals self)) (data (rel_mode_obliques self))
               (ga i j) (fsub (ga i j) (gr i j)))"
    by blast
  from pointwise_tbin[OF ecc ori(2), of fmul] obtain t where
    t: "tbin fmul (tmap (\<lambda>x. fadd (fmul (data (sf_ecc_slope self)) x) (data (sf_ecc_intercept self))) e')
          ori = Inr t"
       "pointwise s (max ke (max ka (max ka kr))) t
          (\<lambda>i j. fmul (fadd (fmul (data (sf_ecc_slope self)) (ge i j)) (data (sf_ecc_intercept self)))
             (spec_orientation (data (abs_mode_cardinals self)) (data (abs_mode_obliques self))
               (data (rel_mode_cardinals self)) (data (rel_mode_obliques self))
               (ga i j) (fsub (ga i j) (gr i j))))"
    by blast
  have z: "pointwise s (max ke (max ka kr))
             (tmap (fclamp_min (Fin (1 / 10 ^ 6))) t)
             (\<lambda>i j. spec_preferred_period self (ga i j) (ge i j) (gr i j))"
    unfolding spec_preferred_period_def
    by (rule pointwise_rank[OF pointwise_tmap[OF t(2)]]) simp
  have "preferred_period self a e r = Inr (tmap (fclamp_min (Fin (1 / 10 ^ 6))) t)"
    unfolding preferred_period_def g
    by (simp add: rel(1) ori(1) t(1) Let_def)
  then show ?thesis using z by blast
qed

lemma max_amplitude_reshaped:
  assumes g: "check_and_reshape_tensors a r = (a', r')"
    and pa: "pointwise s ka a' ga" and pr: "pointwise s kr r' gr"
  shows "\<exists>z. max_amplitude self a r = Inr z \<and>
           pointwise s (max ka kr) z (\<lambda>i j. spec_amplitude self (ga i j) (gr i j))"
proof -
  from pointwise_tbin[OF pa pr, of fsub] obtain rel where
    rel: "tbin fsub a' r' = Inr rel"
         "pointwise s (max ka kr) rel (\<lambda>i j. fsub (ga i j) (gr i j))"
    by blast
  from orientation_sum_pointwise[OF pa rel(2)] obtain amp where
    amp: "orientation_sum (data (abs_amplitude_cardinals self)) (data (abs_amplitude_obliques self))
            (data (rel_amplitude_cardinals self)) (data (rel_amplitude_obliques self)) a' rel = Inr amp"
         "pointwise s (max ka (max ka kr)) amp
            (\<lambda>i j. spec_orientation (data (abs_amplitude_cardinals self)) (data (abs_amplitude_obliques self))
               (data (rel_amplitude_cardinals self)) (data (rel_amplitude_obliques self))
               (ga i j) (fsub (ga i j) (gr i j)))"
    by blast
  have z: "pointwise s (max ka kr)
             (tmap (fclamp_min (Fin (1 / 10 ^ 6))) amp)
             (\<lambda>i j. spec_amplitude self (ga i j) (gr i j))"
    unfolding spec_amplitude_def
    by (rule pointwise_rank[OF pointwise_tmap[OF amp(2)]]) simp
  have "max_amplitude self a r = Inr (tmap (fclamp_min (Fin (1 / 10 ^ 6))) amp)"
    unfolding max_amplitude_def g
    by (simp add: rel(1) amp(1))
  then show ?thesis using z by blast
qed

lemma evaluate_reshaped:
  assumes g3: "(if ndimension a = 1 \<and> ndimension e = 1 \<and> ndimension r = 1
        then (if shape a \<noteq> shape e \<and> shape e \<noteq> shape r
              then Inl OnlyTwoNonSingletons
              else Inr (a, e, r))
        else (case check_and_reshape_tensors a e of (sf_angle1, vox_ecc1) \<Rightarrow>
              case check_and_reshape_tensors vox_ecc1 r of (vox_ecc2, vox_angle1) \<Rightarrow>
              case check_and_reshape_tensors sf_angle1 vox_angle1 of (sf_angle2, vox_angle2) \<Rightarrow>
                Inr (sf_angle2, vox_ecc2, vox_angle2))) = (Inr (a', e', r') :: error + tensor \<times> tensor \<times> tensor)"
    and g2: "check_and_reshape_tensors a r = (a2, r2)"
    and pm: "pointwise s km m gm"
    and pa: "pointwise s ka a' ga" and pe: "pointwise s ke e' ge" and pr: "pointwise s kr r' gr"
    and pa2: "pointwise s ka2 a2 ga" and pr2: "pointwise s kr2 r2 gr"
  shows "\<exists>z. evaluate self m a e r = Inr z \<and>
           pointwise s (max (max km ke) (max (max ka kr) (max ka2 kr2))) z
             (\<lambda>i j. spec_response self (gm i j) (ga i j) (ge i j) (gr i j))"
proof -
  from preferred_period_reshaped[OF g3 pa pe pr, of self] obtain pp where
    pp: "preferred_period self a e r = Inr pp"
        "pointwise s (max ke (max ka kr)) pp
           (\<lambda>i j. spec_preferred_period self (ga i j) (ge i j) (gr i j))"
    by blast
  have lm: "pointwise s km (tmap flog2 m) (\<lambda>i j. flog2 (gm i j))"
    by (intro pointwise_tmap pm)
  have lp: "pointwise s (max ke (max ka kr)) (tmap flog2 pp)
              (\<lambda>i j. flog2 (spec_preferred_period self (ga i j) (ge i j) (gr i j)))"
    by (intro pointwise_tmap pp(2))
  from pointwise_tbin[OF lm lp, of fadd] obtain l where
    l: "tbin fadd (tmap flog2 m) (tmap flog2 pp) = Inr l"
       "pointwise s (max km (max ke (max ka kr))) l
          (\<lambda>i j. fadd (flog2 (gm i j))
                     (flog2 (spec_preferred_period self (ga i j) (ge i j) (gr i j))))"
    by blast
  let ?den = "fmul (Fin 2) (fmul (data (sigma self)) (data (sigma self)))"
  have pdf: "pointwise s (max km (max ke (max ka kr)))
               (tmap (\<lambda>x. fexp (fdiv (fneg (fmul x x)) ?den)) l)
               (\<lambda>i j. fexp (fdiv (fneg (fmul
                   (fadd (flog2 (gm i j))
                     (flog2 (spec_preferred_period self (ga i j) (ge i j) (gr i j))))
                   (fadd (flog2 (gm i j))
                     (flog2 (spec_preferred_period self (ga i j) (ge i j) (gr i j))))))
                  ?den))"
    by (intro pointwise_tmap[OF l(2)])
  from max_amplitude_reshaped[OF g2 pa2 pr2, of self] obtain amp where
    amp: "max_amplitude self a r = Inr amp"
         "pointwise s (max ka2 kr2) amp (\<lambda>i j. spec_amplitude self (ga i j) (gr i j))"
    by blast
  from pointwise_tbin[OF amp(2) pdf, of fmul] obtain z where
    z: "tbin fmul amp (tmap (\<lambda>x. fexp (fdiv (fneg (fmul x x)) ?den)) l) = Inr z"
       "pointwise s (max (max ka2 kr2) (max km (max ke (max ka kr)))) z
          (\<lambda>i j. fmul (spec_amplitude self (ga i j) (gr i j))
             (fexp (fdiv (fneg (fmul
                   (fadd (flog2 (gm i j))
                     (flog2 (spec_preferred_period self (ga i j) (ge i j) (gr i j))))
                   (fadd (flog2 (gm i j))
                     (flog2 (spec_preferred_period self (ga i j) (ge i j) (gr i j))))))
                  ?den)))"
    by blast
  have "evaluate self m a e r = Inr z"
    unfolding evaluate_def by (simp add: pp(1) l(1) amp(1) z(1) Let_def)
  moreover have "pointwise s (max (max km ke) (max (max ka kr) (max ka2 kr2))) z
             (\<lambda>i j. spec_response self (gm i j) (ga i j) (ge i j) (gr i j))"
    unfolding spec_response_def by (rule pointwise_rank[OF z(2)]) (simp add: max.assoc max.commute max.left_commute)
  ultimately show ?thesis by blast
qed

lemma evaluate_pointwise:
  assumes m: "conforms s m" and a: "conforms s a" and e: "conforms s e" and r: "conforms s r"
  shows "\<exists>z. evaluate self m a e r = Inr z \<and>
           pointwise s (max (max (ndimension m) (ndimension e)) (max (ndimension a) (ndimension r))) z
             (\<lambda>i j. spec_response self (elem_at m i j) (elem_at a i j) (elem_at e i j) (elem_at r i j))"
proof -
  note pm = pointwise_at[OF m] and pa = pointwise_at[OF a] and pe = pointwise_at[OF e]
    and pr = pointwise_at[OF r]
  from evaluate_reshaped[OF preferred_period_shapes[OF a e r] check_and_reshape_conforms[OF a r]
      pm pa pe pr pa pr, of self]
  obtain z where z: "evaluate self m a e r = Inr z"
    "pointwise s (max (max (ndimension m) (ndimension e))
        (max (max (ndimension a) (ndimension r)) (max (ndimension a) (ndimension r)))) z
       (\<lambda>i j. spec_response self (elem_at m i j) (elem_at a i j) (elem_at e i j) (elem_at r i j))"
    by blast
  from z(2) have "pointwise s (max (max (ndimension m) (ndimension e)) (max (ndimension a) (ndimension r))) z
             (\<lambda>i j. spec_response self (elem_at m i j) (elem_at a i j) (elem_at e i j) (elem_at r i j))"
    by (rule pointwise_rank) simp
  with z(1) show ?thesis by blast
qed







lemma upt_2: "[0..<2] = [0, 1]"
  by (simp add: upt_rec)




subsection \<open>The loss of predictions against themselves\<close>

text \<open>
  Claim C9. The docstring of \<^verbatim>\<open>weighted_normed_loss\<close> says of predictions and a target
  of length one, each normed by itself, that "the loss will always be 0", and the guard
  before the norms is there so that a norm of zero does not make the loss infinite ("we
  do that here to avoid this issue"). For predictions that are zero the guard multiplies
  them by \<open>1e100\<close> and they are zero still: the norm is zero, the normed predictions and
  the normed target are 0/0, and the loss of the predictions against themselves is NaN,
  not 0.
\<close>

theorem weighted_normed_loss_zero_predictions:
  "weighted_normed_loss (T1 [Fin 0]) (T1 [Fin 0]) (T1 [Fin 1]) None None = Inr NaN \<and>
   weighted_normed_loss (T1 [Fin 0, Fin 0]) (T1 [Fin 0, Fin 0]) (T1 [Fin 1, Fin 1]) None None = Inr NaN \<and>
   \<not> feq NaN (Fin 0)"
  by (simp add: weighted_normed_loss_def tcontains_def vnorm_def bvec_def of_option_def
      tmean_all_def fmean_def fsub_def Let_def)

subsection \<open>Rescaling the predictions\<close>

text \<open>
  Claim C2. The comment of the guard says that "multiplying by a scale factor won't
  change our loss", and the guard is the code's own use of it. For predictions that are
  zero, multiplied by 2 or not, the norm is zero and the loss is NaN: the two losses do
  not compare equal, and neither is non-negative.
\<close>

theorem weighted_normed_loss_zero_predictions_scaled:
  "weighted_normed_loss (tmap (fmul (Fin 2)) (T1 [Fin 0, Fin 0])) (T1 [Fin 1, Fin 0]) (T1 [Fin 1, Fin 1])
     None None = Inr NaN \<and>
   weighted_normed_loss (T1 [Fin 0, Fin 0]) (T1 [Fin 1, Fin 0]) (T1 [Fin 1, Fin 1]) None None = Inr NaN \<and>
   \<not> feq NaN NaN \<and> \<not> fle (Fin 0) NaN"
  by (simp add: weighted_normed_loss_def tcontains_def vnorm_def bvec_def of_option_def
      tmean_all_def fmean_def fsub_def fle_def Let_def)

subsection \<open>The loss on rows\<close>

lemma tcontains_tnorm_rows:
  "tcontains (Fin 0) (tnorm (T2 pss)) = list_ex (\<lambda>ps. feq (Fin 0) (vnorm ps)) pss"
  by (induction pss) (simp_all add: tcontains_def)

lemma guard_rows:
  "(if tcontains (Fin 0) (tnorm (T2 pss)) then tmap (\<lambda>x. fmul x (Fin (10 ^ 100))) (T2 pss) else T2 pss) =
     T2 (rescaled pss)"
  unfolding tcontains_tnorm_rows rescaled_def by simp

lemma length_rescaled [simp]: "length (rescaled pss) = length pss"
  by (simp add: rescaled_def)

lemma length_rescaled_row [simp]: "i < length pss \<Longrightarrow> length (rescaled pss ! i) = length (pss ! i)"
  by (simp add: rescaled_def)

lemma tbin_col:
  assumes "length xss = length cs"
  shows "tbin f (T2 xss) (T2 (map (\<lambda>c. [c]) cs)) =
           Inr (T2 (map (\<lambda>i. map (\<lambda>x. f x (cs ! i)) (xss ! i)) [0..<length xss]))"
  using bmat_col[OF assms, of f] by (simp add: of_option_def)

lemma tnorm_rows: "tnorm (T2 xss) = T2 (map (\<lambda>c. [c]) (map vnorm xss))"
  by simp

lemma tmean_last_rows: "tmean_last (T2 wss) = T2 (map (\<lambda>c. [c]) (map fmean wss))"
  by simp

text \<open>
  On a batch (matrices with as many rows, predictions and targets of one shape) and on
  a single voxel (vectors), \<^verbatim>\<open>weighted_normed_loss\<close> raises nothing and returns the loss of
  the specification.
\<close>

lemma weighted_normed_loss_rows:
  assumes lens: "length tss = length pss" "length wss = length pss" "length pnss = length pss"
      "length tnss = length pss"
    and cols: "\<And>i. i < length pss \<Longrightarrow> length (tss ! i) = length (pss ! i)"
  shows "weighted_normed_loss (T2 pss) (T2 tss) (T2 wss) (Some (T2 pnss)) (Some (T2 tnss)) =
           Inr (spec_loss pss tss wss pnss tnss)"
proof -
  let ?n = "length pss"
  let ?P = "rescaled pss"
  let ?np = "\<lambda>i. map (\<lambda>x. fdiv x (map vnorm pnss ! i)) (?P ! i)"
  let ?nt = "\<lambda>i. map (\<lambda>x. fdiv x (map vnorm tnss ! i)) (tss ! i)"
  have np: "tbin fdiv (T2 ?P) (tnorm (T2 pnss)) = Inr (T2 (map ?np [0..<?n]))"
    unfolding tnorm_rows using tbin_col[of ?P "map vnorm pnss" fdiv] lens by simp
  have nt: "tbin fdiv (T2 tss) (tnorm (T2 tnss)) = Inr (T2 (map ?nt [0..<?n]))"
    unfolding tnorm_rows using tbin_col[of tss "map vnorm tnss" fdiv] lens by simp
  have diff: "tbin fsub (T2 (map ?np [0..<?n])) (T2 (map ?nt [0..<?n])) =
      Inr (T2 (map (\<lambda>i. map2 fsub (?np i) (?nt i)) [0..<?n]))"
    by (rule tbin_rows_same) (simp add: cols)
  have sq: "tbin fmul (T2 (map (\<lambda>c. [c]) (map fmean wss)))
              (T2 (map (\<lambda>i. map (\<lambda>x. fmul x x) (map2 fsub (?np i) (?nt i))) [0..<?n])) =
      Inr (T2 (map (\<lambda>i. map (fmul (map fmean wss ! i))
                 (map (\<lambda>x. fmul x x) (map2 fsub (?np i) (?nt i)))) [0..<?n]))"
    by (rule tbin_col_left) (simp add: lens)
  have rows: "map (\<lambda>i. map (fmul (map fmean wss ! i))
                 (map (\<lambda>x. fmul x x) (map2 fsub (?np i) (?nt i)))) [0..<?n] =
              map (\<lambda>i. map2 (weighted_error (fmean (wss ! i)) (vnorm (pnss ! i)) (vnorm (tnss ! i)))
                              (?P ! i) (tss ! i)) [0..<?n]"
    using lens by (auto simp: weighted_error_def Let_def zip_map_map)
  show ?thesis
    unfolding weighted_normed_loss_def Let_def guard_rows
    by (simp only: option.case bindE_simps prod.case np nt diff tmap_rows tmean_last_rows sq
        rows tmean_all_def elements.simps spec_loss_def)
qed

lemma weighted_normed_loss_row:
  assumes "length t = length p"
  shows "weighted_normed_loss (T1 p) (T1 t) (T1 w) (Some (T1 pn)) (Some (T1 tn)) =
           Inr (spec_loss [p] [t] [w] [pn] [tn])"
proof -
  have g: "(if tcontains (Fin 0) (tnorm (T1 p)) then tmap (\<lambda>x. fmul x (Fin (10 ^ 100))) (T1 p) else T1 p) =
           T1 (rescaled [p] ! 0)"
    by (simp add: tcontains_def rescaled_def)
  have l: "length (rescaled [p] ! 0) = length p" by simp
  show ?thesis
    unfolding weighted_normed_loss_def Let_def g
    using assms l
    by (simp add: bvec_col bvec_col_left bvec_same of_option_def tmean_all_def spec_loss_def
        weighted_error_def Let_def zip_map_map comp_def case_prod_unfold del: length_rescaled_row)
qed

subsection \<open>Training under cross-validation\<close>

text \<open>The model on the features of a batch, and on those of a voxel.\<close>

lemma evaluate_matrix:
  assumes c: "conforms [r, c] m" "conforms [r, c] a" "conforms [r, c] e" "conforms [r, c] g"
    and k: "ndimension m = 2"
  shows "evaluate self m a e g =
           Inr (T2 (map (\<lambda>i. map (\<lambda>j. spec_response self (elem_at m i j) (elem_at a i j)
                                       (elem_at e i j) (elem_at g i j)) [0..<c]) [0..<r]))"
proof -
  from evaluate_pointwise[OF c, of self] obtain z where
    z: "evaluate self m a e g = Inr z"
       "pointwise [r, c] (max (max (ndimension m) (ndimension e)) (max (ndimension a) (ndimension g))) z
          (\<lambda>i j. spec_response self (elem_at m i j) (elem_at a i j) (elem_at e i j) (elem_at g i j))"
    by blast
  have "ndimension x \<le> 2" for x by (cases x) simp_all
  from this[of a] this[of e] this[of g] have "max (max (ndimension m) (ndimension e)) (max (ndimension a) (ndimension g)) = length [r, c]"
    using k by simp
  from pointwise_tabulate[OF z(2) this] z(1) show ?thesis by simp
qed

lemma evaluate_vector:
  assumes "length as = n" "length es = n" "length gs = n" "length ms = n"
  shows "evaluate self (T1 ms) (T1 as) (T1 es) (T1 gs) =
           Inr (T1 (map (\<lambda>j. spec_response self (ms ! j) (as ! j) (es ! j) (gs ! j)) [0..<n]))"
proof -
  have c: "conforms [n] (T1 ms)" "conforms [n] (T1 as)" "conforms [n] (T1 es)" "conforms [n] (T1 gs)"
    using assms by simp_all
  from evaluate_pointwise[OF c, of self] obtain z where
    z: "evaluate self (T1 ms) (T1 as) (T1 es) (T1 gs) = Inr z"
       "pointwise [n] (max (max (ndimension (T1 ms)) (ndimension (T1 es)))
           (max (ndimension (T1 as)) (ndimension (T1 gs)))) z
          (\<lambda>i j. spec_response self (elem_at (T1 ms) i j) (elem_at (T1 as) i j) (elem_at (T1 es) i j)
             (elem_at (T1 gs) i j))"
    by blast
  have "max (max (ndimension (T1 ms)) (ndimension (T1 es)))
           (max (ndimension (T1 as)) (ndimension (T1 gs))) = length [n]" by simp
  from pointwise_tabulate[OF z(2) this] z(1) show ?thesis by simp
qed

lemma rank2_conforms:
  assumes "ndimension x = 2" "conforms [r, c] x"
  obtains xss where "x = T2 xss" "length xss = r" "\<forall>row\<in>set xss. length row = c"
  using assms by (cases x) (auto simp: conforms_T2)

lemma height_T2 [simp]: "height (T2 xss) = length xss"
  by (simp add: height_def)

text \<open>
  The loss of a pair of batches and the held-out loss of a voxel, as
  \<^verbatim>\<open>train_model_traintest\<close> computes them, are the losses of the specification.
\<close>

lemma traintest_batch_loss_spec:
  assumes "well_paired stuff"
  shows "traintest_batch_loss evaluate stuff self = Inr (cv_loss self stuff)"
proof -
  obtain m a e g t w m' a' e' g' u v where
    stuff: "stuff = (((m, a, e, g), t, w), ((m', a', e', g'), u, v))"
    by (cases stuff) auto
  let ?r = "height t" and ?c = "width t" and ?r' = "height u" and ?c' = "width u"
  from assms have base: "well_formed ((m, a, e, g), t, w)" "well_formed ((m', a', e', g'), u, v)"
    "?r' = ?r"
    unfolding stuff well_paired_def by simp_all
  have wf:
    "ndimension m = 2" "conforms [?r, ?c] m" "ndimension a = 2" "conforms [?r, ?c] a"
    "ndimension e = 2" "conforms [?r, ?c] e" "ndimension g = 2" "conforms [?r, ?c] g"
    "ndimension t = 2" "conforms [?r, ?c] t" "ndimension w = 2" "height w = ?r"
    using base(1) unfolding well_formed_def by simp_all
  have wf':
    "ndimension m' = 2" "conforms [?r', ?c'] m'" "ndimension a' = 2" "conforms [?r', ?c'] a'"
    "ndimension e' = 2" "conforms [?r', ?c'] e'" "ndimension g' = 2" "conforms [?r', ?c'] g'"
    "ndimension u = 2" "conforms [?r', ?c'] u"
    using base(2) unfolding well_formed_def by simp_all
  from rank2_conforms[OF wf(9,10)] obtain tss where
    t: "t = T2 tss" "length tss = ?r" "\<forall>row\<in>set tss. length row = ?c" by blast
  from rank2_conforms[OF wf'(9,10)] obtain uss where
    u: "u = T2 uss" "length uss = ?r'" "\<forall>row\<in>set uss. length row = ?c'" by blast
  obtain wss where w: "w = T2 wss" using wf(11) by (cases w) simp_all
  have wl: "length wss = ?r" using wf(12) unfolding w by simp
  let ?P = "responses self (m, a, e, g) t" and ?Q = "responses self (m', a', e', g') u"
  have p: "evaluate self m a e g = Inr (T2 ?P)"
    unfolding responses_def prod.case
    by (rule evaluate_matrix[OF wf(2,4,6,8) wf(1)])
  have q: "evaluate self m' a' e' g' = Inr (T2 ?Q)"
    unfolding responses_def prod.case
    by (rule evaluate_matrix[OF wf'(2,4,6,8) wf'(1)])
  have lp: "length ?P = ?r" "length ?Q = ?r"
    by (simp_all add: responses_def base(3))
  have cols: "length (tss ! i) = length (?P ! i)" if "i < length ?P" for i
    using that t(2,3) lp by (simp add: responses_def)
  have loss: "weighted_normed_loss (T2 ?P) (T2 tss) (T2 wss) (Some (T2 (map2 (@) ?Q ?P)))
                (Some (T2 (map2 (@) uss tss))) =
              Inr (spec_loss ?P tss wss (map2 (@) ?Q ?P) (map2 (@) uss tss))"
    by (rule weighted_normed_loss_rows) (simp_all add: lp t(2) u(2) wl cols base(3))
  have cat: "tcat1 (T2 ?Q) (T2 ?P) = Inr (T2 (map2 (@) ?Q ?P))"
    "tcat1 (T2 uss) (T2 tss) = Inr (T2 (map2 (@) uss tss))"
    by (simp_all add: lp t(2) u(2) base(3))
  show ?thesis
    unfolding stuff traintest_batch_loss_def cv_loss_def prod.case Let_def
    using p q cat loss by (simp add: t(1) u(1) w)
qed

lemma get_voxel_vectors:
  obtains ms as es gs ts ws where
    "get_voxel ds v = ((T1 ms, T1 as, T1 es, T1 gs), T1 ts, T1 ws)"
    "length as = length ms" "length es = length ms" "length gs = length ms" "length ts = length ms"
  by (simp add: get_voxel_def get_single_item_def)

lemma responses_vectors:
  "length ts = length ms \<Longrightarrow>
   responses self (T1 ms, T1 as, T1 es, T1 gs) (T1 ts) =
     [map (\<lambda>j. spec_response self (ms ! j) (as ! j) (es ! j) (gs ! j)) [0..<length ms]]"
  by (simp add: responses_def height_def width_def)

lemma test_loss_spec:
  "test_loss evaluate train_dataset test_dataset self v =
     Inr (held_out_loss self train_dataset test_dataset v)"
proof -
  obtain ms as es gs ts ws where
    te: "get_voxel test_dataset v = ((T1 ms, T1 as, T1 es, T1 gs), T1 ts, T1 ws)"
    "length as = length ms" "length es = length ms" "length gs = length ms" "length ts = length ms"
    by (rule get_voxel_vectors)
  obtain ms' as' es' gs' ts' ws' where
    tr: "get_voxel train_dataset v = ((T1 ms', T1 as', T1 es', T1 gs'), T1 ts', T1 ws')"
    "length as' = length ms'" "length es' = length ms'" "length gs' = length ms'"
    "length ts' = length ms'"
    by (rule get_voxel_vectors)
  let ?q = "map (\<lambda>j. spec_response self (ms ! j) (as ! j) (es ! j) (gs ! j)) [0..<length ms]"
  let ?p = "map (\<lambda>j. spec_response self (ms' ! j) (as' ! j) (es' ! j) (gs' ! j)) [0..<length ms']"
  have q: "evaluate self (T1 ms) (T1 as) (T1 es) (T1 gs) = Inr (T1 ?q)"
    by (rule evaluate_vector) (simp_all add: te)
  have p: "evaluate self (T1 ms') (T1 as') (T1 es') (T1 gs') = Inr (T1 ?p)"
    by (rule evaluate_vector) (simp_all add: tr)
  have loss: "weighted_normed_loss (T1 ?q) (T1 ts) (T1 ws) (Some (T1 (?q @ ?p))) (Some (T1 (ts @ ts'))) =
        Inr (spec_loss [?q] [ts] [ws] [?q @ ?p] [ts @ ts'])"
    by (rule weighted_normed_loss_row) (simp add: te)
  show ?thesis
    unfolding test_loss_def held_out_loss_def te(1) tr(1) prod.case p q bindE_simps Let_def
      responses_vectors[OF te(5)] responses_vectors[OF tr(5)]
    using loss by simp
qed

text \<open>The loops, for losses that raise nothing.\<close>

lemma batch_step_total:
  "batch_step step (\<lambda>m. Inr (loss m)) st = Inr (spec_batch step loss st)"
  by (cases st) (simp add: batch_step_def spec_batch_def split: prod.splits)

lemma run_batches_total:
  "run_batches step (map (\<lambda>loss m. Inr (loss m)) losses) st = Inr (fold (spec_batch step) losses st)"
  by (induction losses arbitrary: st) (simp_all add: batch_step_total)

lemma test_losses_total: "test_losses (\<lambda>v. Inr (f v)) vs = Inr (map f vs)"
  by (induction vs) simp_all

lemma short_history:
  "length xs < 4 \<Longrightarrow> (case xs of a # b # c # d # _ \<Rightarrow> P a b c d | _ \<Rightarrow> False) = False"
  by (auto split: list.splits)

lemma stopped_declining_spec: "stopped_declining train_thresh h = spec_converged train_thresh h"
proof (cases "length h < 4")
  case True
  then have "length (map fmean (rev h)) < 4" by simp
  then have "spec_converged train_thresh h = False"
    unfolding spec_converged_def by (rule short_history)
  moreover have "\<not> stopped_declining train_thresh h"
    using True by (simp add: stopped_declining_def Let_def)
  ultimately show ?thesis by simp
next
  case False
  then obtain a b c d rest where r: "rev h = a # b # c # d # rest"
    by (cases "rev h" rule: list.exhaust; simp; cases "tl (rev h)"; simp;
        cases "tl (tl (rev h))"; simp; cases "tl (tl (tl (rev h)))"; simp)
  then have h: "h = rev rest @ [d, c, b, a]"
    by (metis append.simps append_assoc rev.simps rev_rev_ident)
  show ?thesis
    unfolding h by (simp add: stopped_declining_def spec_converged_def below_def Let_def nth_append)
qed

lemma traintest_loop_spec:
  "traintest_loop step (map (\<lambda>loss m. Inr (loss m)) losses) (\<lambda>m v. Inr (held_out m v)) voxels
     train_thresh n t st train_history test_history =
   Inr (spec_cv_training step losses (\<lambda>m. map (held_out m) voxels) train_thresh n t st
          train_history test_history)"
proof (induction n arbitrary: t st train_history test_history)
  case 0
  then show ?case by (cases st) simp
next
  case (Suc n)
  obtain m opt where st: "st = (m, opt)" by (cases st) auto
  obtain m' opt' ls where e: "fold (spec_batch step) losses (m, opt, []) = (m', opt', ls)"
    by (cases "fold (spec_batch step) losses (m, opt, [])") auto
  show ?case
    unfolding st
    by (simp add: run_batches_total test_losses_total spec_epoch_def e Suc.IH
        stopped_declining_spec Let_def)
qed

lemma train_model_traintest_spec:
  assumes "max_epochs \<noteq> 0"
    and "list_all well_paired (zip (loader train_dataset) (loader test_dataset))"
  shows "train_model_traintest evaluate step loader model opt train_dataset test_dataset max_epochs
           train_thresh =
         Inr (spec_cross_validation step loader model opt train_dataset test_dataset max_epochs
                train_thresh)"
proof -
  have obs: "map (traintest_batch_loss evaluate) (zip (loader train_dataset) (loader test_dataset)) =
             map (\<lambda>loss m. Inr (loss m))
               (map (\<lambda>stuff self. cv_loss self stuff) (zip (loader train_dataset) (loader test_dataset)))"
    using assms(2) by (auto simp: list_all_iff traintest_batch_loss_spec)
  have held: "test_loss evaluate train_dataset test_dataset =
              (\<lambda>m v. Inr (held_out_loss m train_dataset test_dataset v))"
    by (intro ext) (rule test_loss_spec)
  show ?thesis
    unfolding train_model_traintest_def obs held traintest_loop_spec spec_cross_validation_def
    using assms(1) by simp
qed

lemma responses_shape:
  "height u' = height u \<Longrightarrow> width u' = width u \<Longrightarrow> responses self f u' = responses self f u"
  by (simp add: responses_def)

lemma cv_loss_norms_only:
  assumes h: "height test_target = height target" "height other_target = height test_target"
    and w: "width other_target = width test_target"
    and n: "map vnorm (map2 (@) (rows other_target) (rows target)) =
            map vnorm (map2 (@) (rows test_target) (rows target))"
  shows "cv_loss self ((features, target, precision), (test_features, other_target, other_precision)) =
         cv_loss self ((features, target, precision), (test_features, test_target, test_precision))"
proof -
  let ?P = "responses self features target"
  have len: "length ?P = height target" by (simp add: responses_def split: prod.splits)
  have l1: "length (map2 (@) (rows other_target) (rows target)) = height target"
    and l2: "length (map2 (@) (rows test_target) (rows target)) = height target"
    using h by (simp_all add: height_def)
  have "vnorm (map2 (@) (rows other_target) (rows target) ! i) =
        vnorm (map2 (@) (rows test_target) (rows target) ! i)" if "i < height target" for i
  proof -
    have "map vnorm (map2 (@) (rows other_target) (rows target)) ! i =
          map vnorm (map2 (@) (rows test_target) (rows target)) ! i"
      using n by simp
    then show ?thesis using that l1 l2 by simp
  qed
  then show ?thesis
    unfolding cv_loss_def prod.case Let_def responses_shape[OF h(2) w] spec_loss_def len
    by (intro arg_cong[where f = fmean] arg_cong[where f = concat] map_cong refl) simp
qed

text \<open>
  Claim C3. For the model \<^verbatim>\<open>LogGaussianDonut\<close>, any optimizer and at least one epoch, when
  the batches of the training and the test set go together, \<^verbatim>\<open>train_model_traintest\<close>
  raises nothing and is cross-validation training as the specification states it: the
  loss of every gradient step is \<open>cv_loss\<close> of the pair of batches, at the model of that
  moment. This loss has its squared errors over the predictions and the targets of the
  training batch alone, each divided by the norm of its row of test and training
  predictions (or targets) joined; the targets of the test set enter through these
  norms only, so that other held-out targets with the same norms give the same loss.
\<close>

theorem traintest_loss_normed_by_union:
  "(max_epochs \<noteq> 0 \<and> list_all well_paired (zip (loader train_dataset) (loader test_dataset)) \<longrightarrow>
      train_model_traintest evaluate step loader model opt train_dataset test_dataset max_epochs
        train_thresh =
      Inr (spec_cross_validation step loader model opt train_dataset test_dataset max_epochs
             train_thresh)) \<and>
   cv_loss self ((features, target, precision), (test_features, test_target, test_precision)) =
     spec_loss (responses self features target) (rows target) (rows precision)
       (map2 (@) (responses self test_features test_target) (responses self features target))
       (map2 (@) (rows test_target) (rows target)) \<and>
   (height test_target = height target \<and> height other_target = height test_target \<and>
    width other_target = width test_target \<and>
    map vnorm (map2 (@) (rows other_target) (rows target)) =
      map vnorm (map2 (@) (rows test_target) (rows target)) \<longrightarrow>
      cv_loss self ((features, target, precision), (test_features, other_target, other_precision)) =
      cv_loss self ((features, target, precision), (test_features, test_target, test_precision)))"
proof (intro conjI impI)
  assume "max_epochs \<noteq> 0 \<and> list_all well_paired (zip (loader train_dataset) (loader test_dataset))"
  then show "train_model_traintest evaluate step loader model opt train_dataset test_dataset max_epochs
        train_thresh =
      Inr (spec_cross_validation step loader model opt train_dataset test_dataset max_epochs
             train_thresh)"
    by (intro train_model_traintest_spec) simp_all
next
  show "cv_loss self ((features, target, precision), (test_features, test_target, test_precision)) =
     spec_loss (responses self features target) (rows target) (rows precision)
       (map2 (@) (responses self test_features test_target) (responses self features target))
       (map2 (@) (rows test_target) (rows target))"
    by (simp add: cv_loss_def Let_def)
next
  assume "height test_target = height target \<and> height other_target = height test_target \<and>
    width other_target = width test_target \<and>
    map vnorm (map2 (@) (rows other_target) (rows target)) =
      map vnorm (map2 (@) (rows test_target) (rows target))"
  then show "cv_loss self ((features, target, precision), (test_features, other_target, other_precision)) =
      cv_loss self ((features, target, precision), (test_features, test_target, test_precision))"
    by (intro cv_loss_norms_only) simp_all
qed

text \<open>The example: one voxel, the classes 0 and 1 trained on, class 2 held out.\<close>

lemmas example_defs =
  one_voxel_def amp_row_def mk_row_def selected_def filtered_def unique_def index_of_def Let_def

lemma selected_train:
  "selected one_voxel None [0, 1] =
     \<lparr>df = [(amp_row 0 0 1, 0), (amp_row 0 1 2, 0)], stimulus_classes = [0, 1]\<rparr>"
  by (simp add: example_defs)

lemma selected_test:
  "selected one_voxel None [2] = \<lparr>df = [(amp_row 0 2 2, 0)], stimulus_classes = [2]\<rparr>"
  by (simp add: example_defs)

lemma batches_train:
  "voxel_batches (selected one_voxel None [0, 1]) =
     [((T2 [[Fin 1, Fin 1]], T2 [[Fin 0, Fin 0]], T2 [[Fin 1, Fin 1]], T2 [[Fin 0, Fin 0]]),
       T2 [[Fin 1, Fin 2]], T2 [[Fin 1, Fin 1]])]"
  unfolding selected_train
  by (simp add: voxel_batches_def len_def getitem_def get_single_item_def unsqueeze_def
      amp_row_def mk_row_def unique_def)

lemma batches_test:
  "voxel_batches (selected one_voxel None [2]) =
     [((T2 [[Fin 1]], T2 [[Fin 0]], T2 [[Fin 1]], T2 [[Fin 0]]), T2 [[Fin 2]], T2 [[Fin 1]])]"
  unfolding selected_test
  by (simp add: voxel_batches_def len_def getitem_def get_single_item_def unsqueeze_def
      amp_row_def mk_row_def unique_def)

lemma spec_response_sigma_donut:
  "s \<noteq> 0 \<Longrightarrow> spec_response (sigma_donut s) (Fin 1) (Fin 0) (Fin 1) (Fin 0) = Fin 1"
  by (simp add: spec_response_def spec_amplitude_def spec_preferred_period_def
      spec_orientation_def sigma_donut_def iso_donut_def fclamp_min_def fsub_def)

lemma cv_loss_example:
  "s \<noteq> 0 \<Longrightarrow>
   cv_loss (sigma_donut s)
     (((T2 [[Fin 1, Fin 1]], T2 [[Fin 0, Fin 0]], T2 [[Fin 1, Fin 1]], T2 [[Fin 0, Fin 0]]),
       T2 [[Fin 1, Fin 2]], T2 [[Fin 1, Fin 1]]),
      ((T2 [[Fin 1]], T2 [[Fin 0]], T2 [[Fin 1]], T2 [[Fin 0]]), T2 [[Fin 2]], T2 [[Fin 1]])) =
   Fin train_loss_value"
  apply (simp add: cv_loss_def responses_def height_def width_def upt_2 spec_response_sigma_donut
      spec_loss_def rescaled_def weighted_error_def vnorm_def fmean_def fsub_def Let_def
      train_loss_value_def)
  apply (simp add: power2_eq_square)
  done

lemma get_voxel_train:
  "get_voxel (selected one_voxel None [0, 1]) 0 =
     ((T1 [Fin 1, Fin 1], T1 [Fin 0, Fin 0], T1 [Fin 1, Fin 1], T1 [Fin 0, Fin 0]),
      T1 [Fin 1, Fin 2], T1 [Fin 1, Fin 1])"
  unfolding selected_train
  by (simp add: get_voxel_def get_single_item_def amp_row_def mk_row_def)

lemma get_voxel_test:
  "get_voxel (selected one_voxel None [2]) 0 =
     ((T1 [Fin 1], T1 [Fin 0], T1 [Fin 1], T1 [Fin 0]), T1 [Fin 2], T1 [Fin 1])"
  unfolding selected_test
  by (simp add: get_voxel_def get_single_item_def amp_row_def mk_row_def)

lemma held_out_loss_example:
  "s \<noteq> 0 \<Longrightarrow>
   held_out_loss (sigma_donut s) (selected one_voxel None [0, 1]) (selected one_voxel None [2]) 0 =
     Fin test_loss_value"
  unfolding held_out_loss_def get_voxel_train get_voxel_test
  apply (simp add: responses_def height_def width_def upt_2 spec_response_sigma_donut
      spec_loss_def rescaled_def weighted_error_def vnorm_def fmean_def fsub_def Let_def
      test_loss_value_def)
  apply (simp add: power2_eq_square)
  done

lemma voxels_test:
  "unique (map (\<lambda>(r, i). col_voxel r) (df (selected one_voxel None [2]))) = [0]"
  unfolding selected_test by (simp add: unique_def amp_row_def mk_row_def)

lemma well_paired_example:
  "list_all well_paired (zip (voxel_batches (selected one_voxel None [0, 1]))
                            (voxel_batches (selected one_voxel None [2])))"
  unfolding batches_train batches_test
  by (simp add: well_paired_def well_formed_def height_def width_def conforms.simps(3))

lemma spec_cross_validation_example:
  "spec_cross_validation widen voxel_batches (sigma_donut (4 / 10)) 0
     (selected one_voxel None [0, 1]) (selected one_voxel None [2]) 2 (Fin (1 / 10 ^ 8)) =
   (sigma_donut (24 / 10), 2, [[Fin train_loss_value], [Fin train_loss_value]],
    [[Fin test_loss_value], [Fin test_loss_value]], 1)"
  unfolding spec_cross_validation_def voxels_test batches_train batches_test
  by (simp add: eval_nat_numeral spec_epoch_def spec_batch_def cv_loss_example
      held_out_loss_example widen_sigma_donut spec_converged_def)

theorem traintest_loss_normed_by_union_witness:
  "((2 :: nat) \<noteq> 0 \<and>
    list_all well_paired (zip (voxel_batches (selected one_voxel None [0, 1]))
                              (voxel_batches (selected one_voxel None [2])))) \<and>
   train_model_traintest evaluate widen voxel_batches (sigma_donut (4 / 10)) 0
     (selected one_voxel None [0, 1]) (selected one_voxel None [2]) 2 (Fin (1 / 10 ^ 8)) =
     Inr (sigma_donut (24 / 10), 2, [[Fin train_loss_value], [Fin train_loss_value]],
          [[Fin test_loss_value], [Fin test_loss_value]], 1) \<and>
   (height (T2 [[Fin 2]]) = height (T2 [[Fin 1, Fin 2]]) \<and>
    height (T2 [[Fin (- 2)]]) = height (T2 [[Fin 2]]) \<and>
    width (T2 [[Fin (- 2)]]) = width (T2 [[Fin 2]]) \<and>
    map vnorm (map2 (@) (rows (T2 [[Fin (- 2)]])) (rows (T2 [[Fin 1, Fin 2]]))) =
      map vnorm (map2 (@) (rows (T2 [[Fin 2]])) (rows (T2 [[Fin 1, Fin 2]])))) \<and>
   cv_loss (sigma_donut (4 / 10))
     (((T2 [[Fin 1, Fin 1]], T2 [[Fin 0, Fin 0]], T2 [[Fin 1, Fin 1]], T2 [[Fin 0, Fin 0]]),
       T2 [[Fin 1, Fin 2]], T2 [[Fin 1, Fin 1]]),
      ((T2 [[Fin 1]], T2 [[Fin 0]], T2 [[Fin 1]], T2 [[Fin 0]]), T2 [[Fin (- 2)]], T2 [[Fin 1]])) =
     Fin train_loss_value"
  using traintest_loss_normed_by_union [of 2 voxel_batches "selected one_voxel None [0, 1]"
      "selected one_voxel None [2]" widen "sigma_donut (4 / 10)" 0 "Fin (1 / 10 ^ 8)"
      "sigma_donut (4 / 10)"
      "(T2 [[Fin 1, Fin 1]], T2 [[Fin 0, Fin 0]], T2 [[Fin 1, Fin 1]], T2 [[Fin 0, Fin 0]])"
      "T2 [[Fin 1, Fin 2]]" "T2 [[Fin 1, Fin 1]]"
      "(T2 [[Fin 1]], T2 [[Fin 0]], T2 [[Fin 1]], T2 [[Fin 0]])" "T2 [[Fin 2]]" "T2 [[Fin 1]]"
      "T2 [[Fin (- 2)]]" "T2 [[Fin 1]]"]
    well_paired_example spec_cross_validation_example cv_loss_example [of "4 / 10"]
  by (simp add: height_def width_def vnorm_def)

subsection \<open>Which stimulus classes are held out\<close>

lemma set_foldl_unique:
  "set (foldl (\<lambda>acc x. if x \<in> set acc then acc else acc @ [x]) acc xs) = set acc \<union> set xs"
  by (induction xs arbitrary: acc) auto

lemma set_unique [simp]: "set (unique xs) = set xs"
  by (simp add: unique_def set_foldl_unique)

lemma FirstLevelDataset_all:
  assumes "filtered table df_filter \<noteq> []"
  shows "\<exists>d. FirstLevelDataset table df_filter None = Inr d"
  using assms by (simp add: FirstLevelDataset_def Let_def filtered_def[symmetric])

lemma filter_tagged:
  "filter (\<lambda>(r, i). P r) (map (\<lambda>r. (r, g r)) xs) = map (\<lambda>r. (r, g r)) (filter P xs)"
  by (induction xs) auto

lemma FirstLevelDataset_selected:
  assumes "\<exists>r\<in>set (filtered table df_filter). col_stimulus_class r \<in> set cs"
  shows "FirstLevelDataset table df_filter (Some cs) = Inr (selected table df_filter cs)"
proof -
  have "filter (\<lambda>r. col_stimulus_class r \<in> set cs) (filtered table df_filter) \<noteq> []"
    using assms by (auto simp: filter_empty_conv)
  then show ?thesis
    by (simp add: FirstLevelDataset_def selected_def Let_def filtered_def[symmetric] filter_tagged
        comp_def)
qed

text \<open>
  Claim C8, as stated, fails: of the stimulus classes 0, 1 and 2, the classes 0 and 1 are
  given as \<^verbatim>\<open>stimulus_class\<close>; they are not fewer than the remaining class, so \<^verbatim>\<open>main\<close>
  trains on them and holds out class 2.
\<close>

theorem main_larger_subset_is_trained_on: "main_datasets [mk_row 0 0, mk_row 0 1, mk_row 0 2] None [0, 1] =
     Inr (\<lparr>df = [(mk_row 0 0, 0), (mk_row 0 1, 0)], stimulus_classes = [0, 1]\<rparr>,
          \<lparr>df = [(mk_row 0 2, 0)], stimulus_classes = [2]\<rparr>, [2])"
  by (simp add: main_datasets_def FirstLevelDataset_def unique_def index_of_def mk_row_def Let_def)

text \<open>
  Claim C8, amended. The held-out classes are the given classes \<open>S\<close> exactly when \<open>S\<close> has
  fewer classes than the rest of the table, and the other classes of the table
  otherwise; the classes trained on are the remaining ones, and no class is both. When
  the filtered table has a row of \<open>S\<close> and a row of another class, at least one epoch is
  allowed and the batches of the two datasets go together, \<^verbatim>\<open>main\<close> raises nothing and is
  cross-validation training on the dataset of exactly the rows of the classes trained
  on and the dataset of exactly the rows of the held-out classes: every gradient step
  has its squared errors over a batch of the first one, the batch of the second one
  entering through the norms, and the held-out losses of an epoch have their squared
  errors over the rows of the second one, voxel by voxel.
\<close>

theorem main_holds_out_smaller_subset:
  assumes S_rows: "\<exists>r\<in>set (filtered table df_filter). col_stimulus_class r \<in> set S"
    and other_rows: "\<exists>r\<in>set (filtered table df_filter).
                       col_stimulus_class r \<in> set (other_classes table S)"
    and epochs: "max_epochs \<noteq> 0"
    and batches: "list_all well_paired
                    (zip (loader (selected table df_filter (trained_classes table S)))
                         (loader (selected table df_filter (held_out_classes table S))))"
  shows "main evaluate step loader model opt table df_filter (Some S) max_epochs train_thresh =
           (case spec_cross_validation step loader model opt
                   (selected table df_filter (trained_classes table S))
                   (selected table df_filter (held_out_classes table S)) max_epochs train_thresh of
              (m, opt', train_loss_history, test_loss_history, t) \<Rightarrow>
                Inr (m, opt', train_loss_history, Some test_loss_history, t,
                     Some (held_out_classes table S))) \<and>
         map fst (df (selected table df_filter (held_out_classes table S))) =
           filter (\<lambda>r. col_stimulus_class r \<in> set (held_out_classes table S))
             (filtered table df_filter) \<and>
         map fst (df (selected table df_filter (trained_classes table S))) =
           filter (\<lambda>r. col_stimulus_class r \<in> set (trained_classes table S))
             (filtered table df_filter) \<and>
         set (held_out_classes table S) \<inter> set (trained_classes table S) = {} \<and>
         (held_out_classes table S = S) = (length S < length (other_classes table S))"
proof -
  have "filtered table df_filter \<noteq> []" using S_rows by auto
  from FirstLevelDataset_all[OF this] obtain d where
    d: "FirstLevelDataset table df_filter None = Inr d" by blast
  note dS = FirstLevelDataset_selected[OF S_rows]
  note dO = FirstLevelDataset_selected[OF other_rows]
  have split: "main_datasets table df_filter S =
      Inr (selected table df_filter (trained_classes table S),
           selected table df_filter (held_out_classes table S), held_out_classes table S)"
    using dS dO
    by (simp add: main_datasets_def Let_def other_classes_def[symmetric] held_out_classes_def
        trained_classes_def)
  have run: "main evaluate step loader model opt table df_filter (Some S) max_epochs train_thresh =
           (case spec_cross_validation step loader model opt
                   (selected table df_filter (trained_classes table S))
                   (selected table df_filter (held_out_classes table S)) max_epochs train_thresh of
              (m, opt', train_loss_history, test_loss_history, t) \<Rightarrow>
                Inr (m, opt', train_loss_history, Some test_loss_history, t,
                     Some (held_out_classes table S)))"
    unfolding main_def d bindE_simps option.case split prod.case
      train_model_traintest_spec[OF epochs batches] ..
  have rows: "map fst (df (selected table df_filter cs)) =
           filter (\<lambda>r. col_stimulus_class r \<in> set cs) (filtered table df_filter)" for cs
    by (simp add: selected_def Let_def comp_def)
  have disj: "set (held_out_classes table S) \<inter> set (trained_classes table S) = {}"
    by (auto simp: held_out_classes_def trained_classes_def other_classes_def)
  have which: "(held_out_classes table S = S) = (length S < length (other_classes table S))"
  proof (cases "length S < length (other_classes table S)")
    case True
    then show ?thesis by (simp add: held_out_classes_def)
  next
    case False
    from S_rows obtain c where c: "c \<in> set S" by auto
    have "c \<notin> set (other_classes table S)" using c by (simp add: other_classes_def)
    with c have "S \<noteq> other_classes table S" by auto
    with False show ?thesis by (simp add: held_out_classes_def)
  qed
  from run rows disj which show ?thesis by simp
qed

theorem main_holds_out_smaller_subset_witness:
  "(\<exists>r\<in>set (filtered one_voxel None). col_stimulus_class r \<in> set [2]) \<and>
   (\<exists>r\<in>set (filtered one_voxel None). col_stimulus_class r \<in> set (other_classes one_voxel [2])) \<and>
   (2 :: nat) \<noteq> 0 \<and>
   list_all well_paired
     (zip (voxel_batches (selected one_voxel None (trained_classes one_voxel [2])))
          (voxel_batches (selected one_voxel None (held_out_classes one_voxel [2])))) \<and>
   held_out_classes one_voxel [2] = [2] \<and> trained_classes one_voxel [2] = [0, 1] \<and>
   main evaluate widen voxel_batches (sigma_donut (4 / 10)) 0 one_voxel None (Some [2]) 2
       (Fin (1 / 10 ^ 8)) =
     Inr (sigma_donut (24 / 10), 2, [[Fin train_loss_value], [Fin train_loss_value]],
          Some [[Fin test_loss_value], [Fin test_loss_value]], 1, Some [2]) \<and>
   map fst (df (selected one_voxel None [2])) = [amp_row 0 2 2] \<and>
   map fst (df (selected one_voxel None [0, 1])) = [amp_row 0 0 1, amp_row 0 1 2]"
proof -
  have o: "other_classes one_voxel [2] = [0, 1]"
    by (simp add: other_classes_def one_voxel_def amp_row_def mk_row_def unique_def)
  have c: "held_out_classes one_voxel [2] = [2]" "trained_classes one_voxel [2] = [0, 1]"
    by (simp_all add: held_out_classes_def trained_classes_def o)
  have h1: "\<exists>r\<in>set (filtered one_voxel None). col_stimulus_class r \<in> set [2]"
    by (simp add: filtered_def one_voxel_def amp_row_def mk_row_def)
  have h2: "\<exists>r\<in>set (filtered one_voxel None). col_stimulus_class r \<in> set (other_classes one_voxel [2])"
    unfolding o by (simp add: filtered_def one_voxel_def amp_row_def mk_row_def)
  have h3: "(2 :: nat) \<noteq> 0" by simp
  have h4: "list_all well_paired
     (zip (voxel_batches (selected one_voxel None (trained_classes one_voxel [2])))
          (voxel_batches (selected one_voxel None (held_out_classes one_voxel [2]))))"
    unfolding c by (rule well_paired_example)
  from main_holds_out_smaller_subset [OF h1 h2 h3 h4, of widen "sigma_donut (4 / 10)" 0
      "Fin (1 / 10 ^ 8)"]
  have "main evaluate widen voxel_batches (sigma_donut (4 / 10)) 0 one_voxel None (Some [2]) 2
       (Fin (1 / 10 ^ 8)) =
     Inr (sigma_donut (24 / 10), 2, [[Fin train_loss_value], [Fin train_loss_value]],
          Some [[Fin test_loss_value], [Fin test_loss_value]], 1, Some [2]) \<and>
   map fst (df (selected one_voxel None [2])) = [amp_row 0 2 2] \<and>
   map fst (df (selected one_voxel None [0, 1])) = [amp_row 0 0 1, amp_row 0 1 2]"
    unfolding c spec_cross_validation_example
    by (simp add: selected_train selected_test)
  with h1 h2 h3 h4 c show ?thesis by (intro conjI) simp_all
qed

end
